theory Spec2Isabelle
  imports Complex_Main "HOL-Library.AList"
begin

section \<open>Python values and failures\<close>

text \<open>
  The program is Python: integers are unbounded (\<open>int\<close>) and floats are read as real
  numbers. The properties proved below do not depend on the rounding of floats: at a
  rotation of 0 degrees every intermediate value of the corner computation is an
  integer or a half-integer and \<^verbatim>\<open>np.cos\<close>, \<^verbatim>\<open>np.sin\<close> return 1 and 0 exactly;
  the bounds of the zoom factor follow from the two clamps and from the monotonicity of
  multiplying and dividing by 1.2, which rounding keeps; the saturation and the value
  that the batch colour generator passes on are the floats nearest to 0.8, 0.9 and 1.0
  (0.8 + 0.2 and 0.9 + 0.1 round to 1.0), and its hue is the float nearest to
  \<open>i / count\<close>. At other angles \<^verbatim>\<open>np.cos\<close> and \<^verbatim>\<open>np.sin\<close>
  return rounded values, and the truncation that follows can turn a rounding error into
  a different pixel; nothing below is stated about those angles.

  An exception that the program does not catch is a value of \<open>py_error\<close>, returned
  as \<open>Inl\<close>.
\<close>

datatype py_error =
  IndexError | AttributeError | KeyError | TypeError | ValueError | ZeroDivisionError

text \<open>\<^verbatim>\<open>int(x)\<close> on a float: the fractional part is discarded, toward zero.\<close>

definition py_int :: "real \<Rightarrow> int" where
  "py_int x = (if 0 \<le> x then \<lfloor>x\<rfloor> else \<lceil>x\<rceil>)"

text \<open>\<^verbatim>\<open>np.radians\<close>.\<close>

definition radians :: "real \<Rightarrow> real" where
  "radians d = d * pi / 180"

section \<open>Geometry: the corners of a rotated rectangle\<close>

text \<open>
  \<^verbatim>\<open>rotated_corners.astype(np.int32)\<close> truncates every entry toward zero. The
  conversion is defined for values whose truncation is a 32-bit signed integer; outside
  that range the C cast behind it has no defined result, which is \<open>None\<close> here.
\<close>

definition in_int32 :: "int \<Rightarrow> bool" where
  "in_int32 n = (- (2 ^ 31) \<le> n \<and> n < 2 ^ 31)"

definition astype_int32 :: "(real \<times> real) list \<Rightarrow> (int \<times> int) list option" where
  "astype_int32 a =
     (if list_all (\<lambda>(x, y). in_int32 (py_int x) \<and> in_int32 (py_int y)) a
      then Some (map (\<lambda>(x, y). (py_int x, py_int y)) a) else None)"

text \<open>
  \<^verbatim>\<open>get_rotated_rectangle_points\<close> (the same body in \<^verbatim>\<open>main.py\<close> and in
  \<^verbatim>\<open>frame_constructor_GUI.py\<close>). A zone's \<^verbatim>\<open>top_left\<close> and
  \<^verbatim>\<open>bottom_right\<close> are integer pixel coordinates. \<^verbatim>\<open>np.dot(corners,
  rotation_matrix.T)\<close> maps a row \<open>(a, b)\<close> to
  \<open>(a * cos_rot + b * (- sin_rot), a * sin_rot + b * cos_rot)\<close>.
\<close>

definition get_rotated_rectangle_points ::
  "int \<times> int \<Rightarrow> int \<times> int \<Rightarrow> real \<Rightarrow> (int \<times> int) list option" where
  "get_rotated_rectangle_points top_left bottom_right rotation_degrees =
     (let (x1, y1) = top_left;
          (x2, y2) = bottom_right;
          center_x = (real_of_int x1 + real_of_int x2) / 2;
          center_y = (real_of_int y1 + real_of_int y2) / 2;
          rotation_rad = radians rotation_degrees;
          corners = [(real_of_int x1 - center_x, real_of_int y1 - center_y),
                     (real_of_int x2 - center_x, real_of_int y1 - center_y),
                     (real_of_int x2 - center_x, real_of_int y2 - center_y),
                     (real_of_int x1 - center_x, real_of_int y2 - center_y)];
          cos_rot = cos rotation_rad;
          sin_rot = sin rotation_rad;
          rotated_corners =
            map (\<lambda>(a, b). (a * cos_rot + b * (- sin_rot), a * sin_rot + b * cos_rot)) corners;
          translated = map (\<lambda>(x, y). (x + center_x, y + center_y)) rotated_corners
      in astype_int32 translated)"

section \<open>Colour assignment\<close>

text \<open>
  \<^verbatim>\<open>colorsys.hsv_to_rgb\<close> of the Python standard library, which both colour
  generators call.
\<close>

definition hsv_to_rgb :: "real \<Rightarrow> real \<Rightarrow> real \<Rightarrow> real \<times> real \<times> real" where
  "hsv_to_rgb h s v =
     (if s = 0 then (v, v, v)
      else
        let i = py_int (h * 6);
            f = h * 6 - real_of_int i;
            p = v * (1 - s);
            q = v * (1 - s * f);
            t = v * (1 - s * (1 - f));
            i = i mod 6
        in if i = 0 then (v, t, p)
           else if i = 1 then (q, v, p)
           else if i = 2 then (p, v, t)
           else if i = 3 then (p, q, v)
           else if i = 4 then (t, p, v)
           else (v, p, q))"

text \<open>
  \<^verbatim>\<open>generate_colors\<close> of \<^verbatim>\<open>main.py\<close>: the batch generator. A colour is the
  list \<open>[b, g, r]\<close>.
\<close>

definition generate_colors :: "nat \<Rightarrow> int list list" where
  "generate_colors num_colors =
     map (\<lambda>i.
        let hue = real i / real num_colors;
            saturation = 0.8 + real (i mod 2) * 0.2;
            val = 0.9 + real (i mod 3) * 0.1;
            (r, g, b) = hsv_to_rgb hue saturation (min val 1.0)
        in [py_int (b * 255), py_int (g * 255), py_int (r * 255)])
       [0 ..< num_colors]"

text \<open>
  The batch generator as the specification words it: for position \<open>i\<close> among
  \<open>count\<close> colourless zones, hue \<open>i / count\<close>, saturation 0.8 for even \<open>i\<close> and
  1.0 for odd \<open>i\<close>, value 0.9, 1.0, 1.0 by \<open>i mod 3\<close>, then the conversion to the
  channel order \<open>[b, g, r]\<close>, truncated.
\<close>

definition batch_color :: "nat \<Rightarrow> nat \<Rightarrow> int list" where
  "batch_color count i =
     (let (r, g, b) = hsv_to_rgb (real i / real count)
                        (if even i then 0.8 else 1)
                        (if i mod 3 = 0 then 0.9 else 1)
      in [py_int (b * 255), py_int (g * 255), py_int (r * 255)])"

section \<open>Zones and the persisted configuration\<close>

text \<open>
  A key of a JSON dictionary that the program reads with \<^verbatim>\<open>.get\<close> is absent, holds
  \<^verbatim>\<open>null\<close>, or holds a value. \<^verbatim>\<open>d.get(k)\<close> is \<^verbatim>\<open>None\<close> in the first two
  cases; \<^verbatim>\<open>d.get(k, default)\<close> is the default for an absent key only.
\<close>

datatype 'a field = Absent | Null | Value 'a

definition py_get :: "'a field \<Rightarrow> 'a option" where
  "py_get f = (case f of Absent \<Rightarrow> None | Null \<Rightarrow> None | Value v \<Rightarrow> Some v)"

definition py_get_default :: "'a field \<Rightarrow> 'a \<Rightarrow> 'a option" where
  "py_get_default f d = (case f of Absent \<Rightarrow> Some d | Null \<Rightarrow> None | Value v \<Rightarrow> Some v)"

text \<open>
  A zone is one dictionary of the \<^verbatim>\<open>frames\<close> array: \<^verbatim>\<open>top_left\<close> and
  \<^verbatim>\<open>bottom_right\<close> are read by subscript, the other keys with \<^verbatim>\<open>.get\<close>. A
  colour is the list \<open>[b, g, r]\<close>.
\<close>

record zone =
  name :: "string field"
  top_left :: "int \<times> int"
  bottom_right :: "int \<times> int"
  rotation :: "real field"
  color :: "int list field"

record config =
  video_path :: "string field"
  window_width :: "int field"
  window_height :: "int field"
  fps_display :: "bool field"
  draw_frames :: "bool field"
  frames :: "zone list field"

text \<open>
  What \<^verbatim>\<open>open(config_path)\<close> followed by \<^verbatim>\<open>json.load\<close> yields: one of the two
  exceptions that both \<^verbatim>\<open>load_config\<close> functions catch, or the parsed dictionary.
\<close>

datatype file_read = FileNotFound | JSONDecodeError | Parsed config

definition colorless :: "zone list \<Rightarrow> zone list" where
  "colorless fs = filter (\<lambda>frame. py_get (color frame) = None) fs"

text \<open>
  The second loop of \<^verbatim>\<open>load_config\<close> in \<^verbatim>\<open>main.py\<close>:
  \<^verbatim>\<open>frame['color'] = auto_colors[color_index]; color_index += 1\<close> for every frame
  without a colour. An index past the end of \<^verbatim>\<open>auto_colors\<close> raises.
\<close>

fun assign_colors :: "zone list \<Rightarrow> int list list \<Rightarrow> nat \<Rightarrow> py_error + zone list" where
  "assign_colors [] auto_colors color_index = Inr []"
| "assign_colors (frame # rest) auto_colors color_index =
     (if py_get (color frame) = None then
        (if color_index < length auto_colors then
           (case assign_colors rest auto_colors (color_index + 1) of
              Inl e \<Rightarrow> Inl e
            | Inr fs \<Rightarrow> Inr (frame\<lparr>color := Value (auto_colors ! color_index)\<rparr> # fs))
         else Inl IndexError)
      else
        (case assign_colors rest auto_colors color_index of
           Inl e \<Rightarrow> Inl e
         | Inr fs \<Rightarrow> Inr (frame # fs)))"

text \<open>
  \<^verbatim>\<open>load_config\<close> of \<^verbatim>\<open>main.py\<close>. It returns \<^verbatim>\<open>None\<close> on the two caught
  exceptions (\<open>Inr None\<close>), the configuration otherwise; any other exception leaves
  the function (\<open>Inl\<close>): iterating over \<^verbatim>\<open>"frames": null\<close> is a
  \<^verbatim>\<open>TypeError\<close>.
\<close>

definition load_config :: "file_read \<Rightarrow> py_error + config option" where
  "load_config file =
     (case file of
        FileNotFound \<Rightarrow> Inr None
      | JSONDecodeError \<Rightarrow> Inr None
      | Parsed config \<Rightarrow>
          (case frames config of
             Absent \<Rightarrow> Inr (Some config)
           | Null \<Rightarrow> Inl TypeError
           | Value fs \<Rightarrow>
               let colors_needed = colorless fs
               in if colors_needed \<noteq> [] then
                    (case assign_colors fs (generate_colors (length colors_needed)) 0 of
                       Inl e \<Rightarrow> Inl e
                     | Inr fs' \<Rightarrow> Inr (Some (config\<lparr>frames := Value fs'\<rparr>)))
                  else Inr (Some config)))"

section \<open>Overlay compositing\<close>

text \<open>
  Both compositors draw with OpenCV calls on image buffers. The model records the calls
  in the order they are made, each with the buffer it writes and the arguments the
  program passes; what OpenCV paints for a call is not modelled. In
  \<^verbatim>\<open>draw_frame_overlays\<close> of \<^verbatim>\<open>main.py\<close> the buffers are the argument
  \<^verbatim>\<open>image\<close>, its copy \<^verbatim>\<open>overlay\<close> and the array \<^verbatim>\<open>result\<close> that
  \<^verbatim>\<open>cv2.addWeighted\<close> returns; in \<^verbatim>\<open>draw_frame_overlay\<close> of the editor they are the
  argument \<^verbatim>\<open>image\<close>, which is drawn on in place, and its copy \<^verbatim>\<open>overlay\<close>.
  \<open>Copy src dst\<close> is \<^verbatim>\<open>dst = src.copy()\<close>;
  \<open>AddWeighted src1 alpha src2 beta dst\<close> is the blend
  \<open>dst = alpha * src1 + beta * src2\<close>.
\<close>

datatype buffer = Image | Overlay | Result

datatype cv_call =
    Copy buffer buffer
  | Polylines buffer "(int \<times> int) list option" "int list option" nat
  | FillPoly buffer "(int \<times> int) list option" "int list option"
  | PutText buffer "string option" "(int \<times> int) option" "int list" nat
  | AddWeighted buffer real buffer real buffer

text \<open>The buffer a call writes, and what the call is for.\<close>

fun target :: "cv_call \<Rightarrow> buffer" where
  "target (Copy src dst) = dst"
| "target (Polylines img pts col thickness) = img"
| "target (FillPoly img pts col) = img"
| "target (PutText img txt org col thickness) = img"
| "target (AddWeighted src1 alpha src2 beta dst) = dst"

datatype cv_kind = Copying | Outline | Fill | Label | Blend

fun kind :: "cv_call \<Rightarrow> cv_kind" where
  "kind (Copy src dst) = Copying"
| "kind (Polylines img pts col thickness) = Outline"
| "kind (FillPoly img pts col) = Fill"
| "kind (PutText img txt org col thickness) = Label"
| "kind (AddWeighted src1 alpha src2 beta dst) = Blend"

text \<open>
  \<^verbatim>\<open>label_pos = (int(np.mean(points[:, 0])), int(np.mean(points[:, 1])))\<close>.
\<close>

definition np_mean :: "int list \<Rightarrow> real" where
  "np_mean xs = real_of_int (sum_list xs) / real (length xs)"

definition label_position :: "(int \<times> int) list option \<Rightarrow> (int \<times> int) option" where
  "label_position points =
     map_option (\<lambda>ps. (py_int (np_mean (map fst ps)), py_int (np_mean (map snd ps)))) points"

text \<open>The decimal digits of a number, for the default names \<^verbatim>\<open>f'Frame_{i+1}'\<close>.\<close>

function str_nat :: "nat \<Rightarrow> string" where
  "str_nat n = (if n < 10 then [char_of (48 + n)] else str_nat (n div 10) @ [char_of (48 + n mod 10)])"
  by pat_completeness auto
termination
  by (relation "measure id") auto

declare str_nat.simps [simp del]

text \<open>
  The body of the loop of \<^verbatim>\<open>draw_frame_overlays\<close> (\<^verbatim>\<open>main.py\<close>) for the zone with
  index \<open>i\<close>. A \<^verbatim>\<open>null\<close> rotation reaches \<^verbatim>\<open>np.radians\<close>, which raises.
\<close>

definition overlay_zone :: "nat \<Rightarrow> zone \<Rightarrow> py_error + cv_call list" where
  "overlay_zone i frame_config =
     (case py_get_default (rotation frame_config) 0 of
        None \<Rightarrow> Inl TypeError
      | Some rot \<Rightarrow>
          let col = py_get (color frame_config);
              nm = py_get_default (name frame_config) (''Frame_'' @ str_nat (i + 1));
              points = get_rotated_rectangle_points
                         (top_left frame_config) (bottom_right frame_config) rot;
              label_pos = label_position points
          in Inr [Polylines Overlay points col 3,
                  FillPoly Overlay points col,
                  PutText Overlay nm label_pos [255, 255, 255] 2,
                  PutText Overlay nm label_pos [0, 0, 0] 1])"

fun overlay_zones :: "nat \<Rightarrow> zone list \<Rightarrow> py_error + cv_call list" where
  "overlay_zones i [] = Inr []"
| "overlay_zones i (frame_config # rest) =
     (case overlay_zone i frame_config of
        Inl e \<Rightarrow> Inl e
      | Inr cs \<Rightarrow>
          (case overlay_zones (i + 1) rest of
             Inl e \<Rightarrow> Inl e
           | Inr cs' \<Rightarrow> Inr (cs @ cs')))"

text \<open>
  \<^verbatim>\<open>draw_frame_overlays\<close> of \<^verbatim>\<open>main.py\<close>: the copy, the loop over the zones, and
  \<^verbatim>\<open>result = cv2.addWeighted(image, 0.7, overlay, 0.3, 0)\<close>.
\<close>

definition draw_frame_overlays :: "zone list \<Rightarrow> py_error + cv_call list" where
  "draw_frame_overlays frames_config =
     (case overlay_zones 0 frames_config of
        Inl e \<Rightarrow> Inl e
      | Inr cs \<Rightarrow> Inr (Copy Image Overlay # cs @ [AddWeighted Image 0.7 Overlay 0.3 Result]))"

text \<open>
  \<^verbatim>\<open>draw_frame_overlay\<close> of the editor, for one zone; its blend is
  \<^verbatim>\<open>cv2.addWeighted(overlay, 0.3, image, 0.7, 0, image)\<close>.
\<close>

definition draw_frame_overlay :: "zone \<Rightarrow> bool \<Rightarrow> py_error + cv_call list" where
  "draw_frame_overlay frame_data is_selected =
     (case py_get_default (rotation frame_data) 0 of
        None \<Rightarrow> Inl TypeError
      | Some rot \<Rightarrow>
          let col = py_get_default (color frame_data) [255, 255, 255];
              nm = py_get_default (name frame_data) ''Unnamed'';
              points = get_rotated_rectangle_points
                         (top_left frame_data) (bottom_right frame_data) rot;
              (line_color, thickness) =
                 (if is_selected then (Some [255, 255, 0], 4) else (col, 2));
              label_pos = label_position points
          in Inr [Polylines Image points line_color thickness,
                  Copy Image Overlay,
                  FillPoly Overlay points col,
                  AddWeighted Overlay 0.3 Image 0.7 Image,
                  PutText Image nm label_pos [255, 255, 255] 2,
                  PutText Image nm label_pos [0, 0, 0] 1])"

text \<open>
  The loop of \<^verbatim>\<open>update_frame_display\<close>:
  \<^verbatim>\<open>for i, frame_data in enumerate(self.frames_data):
  self.draw_frame_overlay(display_frame, frame_data, i == self.selected_frame_index)\<close>.
\<close>

fun draw_all_frames :: "nat \<Rightarrow> int \<Rightarrow> zone list \<Rightarrow> py_error + cv_call list" where
  "draw_all_frames i selected [] = Inr []"
| "draw_all_frames i selected (frame_data # rest) =
     (case draw_frame_overlay frame_data (int i = selected) of
        Inl e \<Rightarrow> Inl e
      | Inr cs \<Rightarrow>
          (case draw_all_frames (i + 1) selected rest of
             Inl e \<Rightarrow> Inl e
           | Inr cs' \<Rightarrow> Inr (cs @ cs')))"

text \<open>What is left of a call when its arguments are dropped.\<close>

definition shape :: "cv_call \<Rightarrow> cv_kind \<times> buffer" where
  "shape c = (kind c, target c)"

definition calls_of :: "py_error + cv_call list \<Rightarrow> cv_call list" where
  "calls_of r = (case r of Inl e \<Rightarrow> [] | Inr cs \<Rightarrow> cs)"

text \<open>
  The compositing as the specification words it, read on a sequence of calls: the
  outlines are drawn on a buffer other than the working copy that receives the filled
  polygons, there is one blend call, and no label is drawn before the blend.
\<close>

definition blend_calls :: "cv_call list \<Rightarrow> nat" where
  "blend_calls cs = length (filter (\<lambda>c. kind c = Blend) cs)"

definition labels_after_blend :: "cv_call list \<Rightarrow> bool" where
  "labels_after_blend cs = (Label \<notin> set (map kind (takeWhile (\<lambda>c. kind c \<noteq> Blend) cs)))"

definition outlines_apart_from_fills :: "cv_call list \<Rightarrow> bool" where
  "outlines_apart_from_fills cs =
     (set (map target (filter (\<lambda>c. kind c = Outline) cs)) \<inter>
      set (map target (filter (\<lambda>c. kind c = Fill) cs)) = {})"

definition composited_as_specified :: "cv_call list \<Rightarrow> bool" where
  "composited_as_specified cs =
     (outlines_apart_from_fills cs \<and> blend_calls cs = 1 \<and> labels_after_blend cs)"

section \<open>The frame editor\<close>

text \<open>
  The fields of \<^verbatim>\<open>FrameEditorGUI\<close> that hold the zone store, the selection and
  the viewport. \<^verbatim>\<open>self.frames_data\<close> is the list stored under
  \<^verbatim>\<open>self.config["frames"]\<close> when that key is present; every change goes through
  \<^verbatim>\<open>frames_data\<close>, and the entry of the dictionary is read again only by
  \<^verbatim>\<open>save_config\<close>, which stores \<^verbatim>\<open>frames_data\<close> there first. The record keeps
  the list in \<open>frames_data\<close>. The widgets and the redrawing that follows an
  operation are not part of the record.
\<close>

record editor =
  config :: config
  frames_data :: "zone list"
  selected_frame_index :: int
  zoom_factor :: real
  pan_x :: int
  pan_y :: int
  last_mouse_x :: int
  last_mouse_y :: int
  is_panning :: bool

subsection \<open>Zoom and pan\<close>

definition zoom_in :: "editor \<Rightarrow> editor" where
  "zoom_in self = self\<lparr>zoom_factor := min (zoom_factor self * 1.2) 5.0\<rparr>"

definition zoom_out :: "editor \<Rightarrow> editor" where
  "zoom_out self = self\<lparr>zoom_factor := max (zoom_factor self / 1.2) 0.2\<rparr>"

definition reset_zoom :: "editor \<Rightarrow> editor" where
  "reset_zoom self = self\<lparr>zoom_factor := 1.0, pan_x := 0, pan_y := 0\<rparr>"

definition on_mouse_wheel :: "int \<Rightarrow> editor \<Rightarrow> editor" where
  "on_mouse_wheel delta self = (if delta > 0 then zoom_in self else zoom_out self)"

definition on_mouse_press :: "int \<Rightarrow> int \<Rightarrow> editor \<Rightarrow> editor" where
  "on_mouse_press x y self = self\<lparr>last_mouse_x := x, last_mouse_y := y, is_panning := True\<rparr>"

definition on_mouse_drag :: "int \<Rightarrow> int \<Rightarrow> editor \<Rightarrow> editor" where
  "on_mouse_drag x y self =
     (if is_panning self then
        self\<lparr>pan_x := pan_x self + (x - last_mouse_x self),
             pan_y := pan_y self + (y - last_mouse_y self),
             last_mouse_x := x, last_mouse_y := y\<rparr>
      else self)"

definition on_mouse_release :: "editor \<Rightarrow> editor" where
  "on_mouse_release self = self\<lparr>is_panning := False\<rparr>"

datatype viewport_action =
    ZoomIn | ZoomOut | ResetZoom | MouseWheel int
  | MousePress int int | MouseDrag int int | MouseRelease

fun viewport_step :: "editor \<Rightarrow> viewport_action \<Rightarrow> editor" where
  "viewport_step self ZoomIn = zoom_in self"
| "viewport_step self ZoomOut = zoom_out self"
| "viewport_step self ResetZoom = reset_zoom self"
| "viewport_step self (MouseWheel delta) = on_mouse_wheel delta self"
| "viewport_step self (MousePress x y) = on_mouse_press x y self"
| "viewport_step self (MouseDrag x y) = on_mouse_drag x y self"
| "viewport_step self MouseRelease = on_mouse_release self"

subsection \<open>The zone store\<close>

text \<open>
  \<^verbatim>\<open>xs[i]\<close>: a negative index counts from the end, an index out of range raises.
  \<^verbatim>\<open>del xs[i]\<close> removes the element there.
\<close>

definition py_index :: "'a list \<Rightarrow> int \<Rightarrow> py_error + nat" where
  "py_index xs i =
     (let n = int (length xs); j = (if i < 0 then i + n else i)
      in if 0 \<le> j \<and> j < n then Inr (nat j) else Inl IndexError)"

definition py_del :: "'a list \<Rightarrow> int \<Rightarrow> py_error + 'a list" where
  "py_del xs i =
     (case py_index xs i of
        Inl e \<Rightarrow> Inl e
      | Inr j \<Rightarrow> Inr (take j xs @ drop (Suc j) xs))"

text \<open>
  \<^verbatim>\<open>__init__\<close>, once the configuration is loaded:
  \<^verbatim>\<open>self.frames_data = self.config.get("frames", [])\<close>, selection 0, zoom 1.0, no
  pan. With \<^verbatim>\<open>"frames": null\<close> there is no zone list, and the first use of it as a
  list raises.
\<close>

definition init_editor :: "config \<Rightarrow> py_error + editor" where
  "init_editor cfg =
     (case py_get_default (frames cfg) [] of
        None \<Rightarrow> Inl TypeError
      | Some fs \<Rightarrow>
          Inr \<lparr>config = cfg, frames_data = fs, selected_frame_index = 0,
               zoom_factor = 1.0, pan_x = 0, pan_y = 0,
               last_mouse_x = 0, last_mouse_y = 0, is_panning = False\<rparr>)"

definition select_frame :: "int \<Rightarrow> editor \<Rightarrow> editor" where
  "select_frame index self =
     (if 0 \<le> index \<and> index < int (length (frames_data self))
      then self\<lparr>selected_frame_index := index\<rparr> else self)"

text \<open>
  The five controls that \<^verbatim>\<open>create_position_controls\<close> and
  \<^verbatim>\<open>create_rotation_control\<close> create, and the handlers of a slider, of a text box
  (\<open>entry\<close> is \<^verbatim>\<open>int(textbox.get())\<close>, \<open>None\<close> when that raises the
  \<^verbatim>\<open>ValueError\<close> the handler catches) and of the name entry.
\<close>

datatype var_name = Top_left_x | Top_left_y | Bottom_right_x | Bottom_right_y | Rotation

definition update_frame_data :: "var_name \<Rightarrow> int \<Rightarrow> editor \<Rightarrow> py_error + editor" where
  "update_frame_data var_name v self =
     (case py_index (frames_data self) (selected_frame_index self) of
        Inl e \<Rightarrow> Inl e
      | Inr j \<Rightarrow>
          let frame_data = frames_data self ! j;
              frame_data' =
                (case var_name of
                   Top_left_x \<Rightarrow> frame_data\<lparr>top_left := (v, snd (top_left frame_data))\<rparr>
                 | Top_left_y \<Rightarrow> frame_data\<lparr>top_left := (fst (top_left frame_data), v)\<rparr>
                 | Bottom_right_x \<Rightarrow> frame_data\<lparr>bottom_right := (v, snd (bottom_right frame_data))\<rparr>
                 | Bottom_right_y \<Rightarrow> frame_data\<lparr>bottom_right := (fst (bottom_right frame_data), v)\<rparr>
                 | Rotation \<Rightarrow> frame_data\<lparr>rotation := Value (real_of_int v)\<rparr>)
          in Inr (self\<lparr>frames_data := (frames_data self)[j := frame_data']\<rparr>))"

definition on_slider_change :: "var_name \<Rightarrow> real \<Rightarrow> editor \<Rightarrow> py_error + editor" where
  "on_slider_change var_name v self =
     (if frames_data self = [] \<or> selected_frame_index self \<ge> int (length (frames_data self))
      then Inr self
      else update_frame_data var_name (py_int v) self)"

definition on_textbox_change ::
  "(var_name \<Rightarrow> int \<times> int) \<Rightarrow> var_name \<Rightarrow> int option \<Rightarrow> editor \<Rightarrow> py_error + editor" where
  "on_textbox_change bounds var_name entry self =
     (if frames_data self = [] \<or> selected_frame_index self \<ge> int (length (frames_data self))
      then Inr self
      else
        (case entry of
           None \<Rightarrow> Inr self
         | Some v \<Rightarrow>
             let (min_val, max_val) = bounds var_name;
                 v' = max min_val (min max_val v)
             in update_frame_data var_name v' self))"

definition on_name_change :: "string \<Rightarrow> editor \<Rightarrow> py_error + editor" where
  "on_name_change entry self =
     (if frames_data self \<noteq> [] \<and> selected_frame_index self < int (length (frames_data self))
      then
        (case py_index (frames_data self) (selected_frame_index self) of
           Inl e \<Rightarrow> Inl e
         | Inr j \<Rightarrow>
             Inr (self\<lparr>frames_data :=
                    (frames_data self)[j := (frames_data self ! j)\<lparr>name := Value entry\<rparr>]\<rparr>))
      else Inr self)"

text \<open>\<^verbatim>\<open>delete_frame\<close>; \<open>confirmed\<close> is the answer to the confirmation dialog.\<close>

definition delete_frame :: "bool \<Rightarrow> editor \<Rightarrow> py_error + editor" where
  "delete_frame confirmed self =
     (if frames_data self = [] then Inr self
      else if confirmed then
        (case py_del (frames_data self) (selected_frame_index self) of
           Inl e \<Rightarrow> Inl e
         | Inr fs \<Rightarrow>
             Inr (self\<lparr>frames_data := fs,
                       selected_frame_index :=
                         (if selected_frame_index self \<ge> int (length fs)
                          then max 0 (int (length fs) - 1)
                          else selected_frame_index self)\<rparr>))
      else Inr self)"

subsection \<open>Saving and loading\<close>

text \<open>
  The files are a map from paths to contents. \<^verbatim>\<open>json.dump\<close> and \<^verbatim>\<open>json.load\<close>
  belong to the standard library and are parameters: \<open>json_dump\<close> gives the content
  written for a configuration, \<open>json_load\<close> parses a content, with \<open>None\<close> for
  \<^verbatim>\<open>JSONDecodeError\<close>. \<open>writable\<close> tells whether \<^verbatim>\<open>open(config_path, 'w')\<close>
  succeeds.
\<close>

definition read_config ::
  "('f \<Rightarrow> config option) \<Rightarrow> (string \<Rightarrow> 'f option) \<Rightarrow> string \<Rightarrow> file_read" where
  "read_config json_load files config_path =
     (case files config_path of
        None \<Rightarrow> FileNotFound
      | Some text \<Rightarrow>
          (case json_load text of None \<Rightarrow> JSONDecodeError | Some cfg \<Rightarrow> Parsed cfg))"

text \<open>\<^verbatim>\<open>load_config\<close> of the editor: the configuration as parsed, or \<^verbatim>\<open>None\<close>.\<close>

definition editor_load_config ::
  "('f \<Rightarrow> config option) \<Rightarrow> (string \<Rightarrow> 'f option) \<Rightarrow> string \<Rightarrow> config option" where
  "editor_load_config json_load files config_path =
     (case read_config json_load files config_path of
        FileNotFound \<Rightarrow> None
      | JSONDecodeError \<Rightarrow> None
      | Parsed cfg \<Rightarrow> Some cfg)"

text \<open>
  \<^verbatim>\<open>save_config\<close>: the third component is the Boolean it returns. The assignment to
  \<^verbatim>\<open>self.config["frames"]\<close> comes before the file is opened.
\<close>

definition save_config ::
  "(config \<Rightarrow> 'f) \<Rightarrow> (string \<Rightarrow> bool) \<Rightarrow> (string \<Rightarrow> 'f option) \<Rightarrow> string \<Rightarrow> editor \<Rightarrow>
     editor \<times> (string \<Rightarrow> 'f option) \<times> bool" where
  "save_config json_dump writable files config_path self =
     (let self' = self\<lparr>config := (config self)\<lparr>frames := Value (frames_data self)\<rparr>\<rparr>
      in if writable config_path
         then (self', files(config_path \<mapsto> json_dump (config self')), True)
         else (self', files, False))"

text \<open>
  \<^verbatim>\<open>reset_to_original\<close>: when \<^verbatim>\<open>load_config\<close> returns \<^verbatim>\<open>None\<close>, the call
  \<^verbatim>\<open>self.config.get\<close> raises.
\<close>

definition reset_to_original ::
  "('f \<Rightarrow> config option) \<Rightarrow> (string \<Rightarrow> 'f option) \<Rightarrow> bool \<Rightarrow> editor \<Rightarrow> py_error + editor" where
  "reset_to_original json_load files confirmed self =
     (if confirmed then
        (case editor_load_config json_load files ''config.json'' of
           None \<Rightarrow> Inl AttributeError
         | Some cfg \<Rightarrow>
             (case py_get_default (frames cfg) [] of
                None \<Rightarrow> Inl TypeError
              | Some fs \<Rightarrow>
                  Inr (self\<lparr>config := cfg, frames_data := fs, selected_frame_index := 0\<rparr>)))
      else Inr self)"

subsection \<open>New zones\<close>

text \<open>
  \<^verbatim>\<open>generate_color_for_frame\<close> (the index-based generator; \<^verbatim>\<open>x % 1.0\<close> of a
  float that is not negative is its fractional part) and \<^verbatim>\<open>add_new_frame\<close>, where
  \<open>video\<close> is the size of the video when there is a capture.
\<close>

definition generate_color_for_frame :: "nat \<Rightarrow> int list" where
  "generate_color_for_frame index =
     (let hue = frac (real index * 0.618033988749895);
          saturation = 0.8;
          val = 0.9;
          (r, g, b) = hsv_to_rgb hue saturation val
      in [py_int (b * 255), py_int (g * 255), py_int (r * 255)])"

definition add_new_frame :: "(int \<times> int) option \<Rightarrow> editor \<Rightarrow> editor" where
  "add_new_frame video self =
     (let (default_width, default_height) =
            (case video of
               Some (width, height) \<Rightarrow> (min 200 (width div 4), min 200 (height div 4))
             | None \<Rightarrow> (200, 200));
          new_frame =
            \<lparr>name = Value (''Frame_'' @ str_nat (length (frames_data self) + 1)),
             top_left = (100, 100),
             bottom_right = (100 + default_width, 100 + default_height),
             rotation = Value 0,
             color = Value (generate_color_for_frame (length (frames_data self)))\<rparr>;
          fs = frames_data self @ [new_frame]
      in self\<lparr>frames_data := fs, selected_frame_index := int (length fs) - 1\<rparr>)"

subsection \<open>Sequences of operations\<close>

text \<open>
  What the editor's surroundings fix for a session, the operations an operator can
  trigger, and the editor run over a sequence of them together with the files. A
  selection is valid when it is an index of the store, or 0 for the empty store.
\<close>

record 'f environment =
  dump_json :: "config \<Rightarrow> 'f"
  load_json :: "'f \<Rightarrow> config option"
  can_write :: "string \<Rightarrow> bool"
  control_bounds :: "var_name \<Rightarrow> int \<times> int"
  video_size :: "(int \<times> int) option"

datatype editor_action =
    Select_frame int
  | Add_new_frame
  | Delete_frame bool
  | Slider_change var_name real
  | Textbox_change var_name "int option"
  | Name_change string
  | Save_config
  | Reset_to_original bool
  | Viewport viewport_action

fun editor_step ::
  "'f environment \<Rightarrow> editor \<times> (string \<Rightarrow> 'f option) \<Rightarrow> editor_action \<Rightarrow>
     py_error + editor \<times> (string \<Rightarrow> 'f option)" where
  "editor_step env (self, files) (Select_frame index) = Inr (select_frame index self, files)"
| "editor_step env (self, files) Add_new_frame = Inr (add_new_frame (video_size env) self, files)"
| "editor_step env (self, files) (Delete_frame confirmed) =
     map_sum id (\<lambda>s. (s, files)) (delete_frame confirmed self)"
| "editor_step env (self, files) (Slider_change var_name v) =
     map_sum id (\<lambda>s. (s, files)) (on_slider_change var_name v self)"
| "editor_step env (self, files) (Textbox_change var_name entry) =
     map_sum id (\<lambda>s. (s, files)) (on_textbox_change (control_bounds env) var_name entry self)"
| "editor_step env (self, files) (Name_change entry) =
     map_sum id (\<lambda>s. (s, files)) (on_name_change entry self)"
| "editor_step env (self, files) Save_config =
     (case save_config (dump_json env) (can_write env) files ''config.json'' self of
        (self', files', ok) \<Rightarrow> Inr (self', files'))"
| "editor_step env (self, files) (Reset_to_original confirmed) =
     map_sum id (\<lambda>s. (s, files)) (reset_to_original (load_json env) files confirmed self)"
| "editor_step env (self, files) (Viewport a) = Inr (viewport_step self a, files)"

fun run_editor ::
  "'f environment \<Rightarrow> editor \<times> (string \<Rightarrow> 'f option) \<Rightarrow> editor_action list \<Rightarrow>
     py_error + editor \<times> (string \<Rightarrow> 'f option)" where
  "run_editor env s [] = Inr s"
| "run_editor env s (a # as) =
     (case editor_step env s a of Inl e \<Rightarrow> Inl e | Inr s' \<Rightarrow> run_editor env s' as)"

definition valid_selection :: "editor \<Rightarrow> bool" where
  "valid_selection self =
     (0 \<le> selected_frame_index self \<and>
      selected_frame_index self < max 1 (int (length (frames_data self))))"

section \<open>Playback\<close>

text \<open>
  The local state of the loop of \<^verbatim>\<open>play_video\<close>. The video has \<open>n_frames\<close> frames
  that can be read; \<open>position\<close> is the index of the next one, \<open>frame\<close> is the
  frame that the variable \<^verbatim>\<open>frame\<close> holds (\<open>None\<close> is Python's \<^verbatim>\<open>None\<close>).
  \<^verbatim>\<open>cap.read()\<close> returns \<^verbatim>\<open>(True, frame)\<close> and advances, or
  \<^verbatim>\<open>(False, None)\<close> at the end.
\<close>

record player =
  paused :: bool
  frame_count :: nat
  show_overlays :: bool
  frame :: "nat option"
  position :: nat

datatype key = Key_q | Key_p | Key_s | Key_r | Key_f | Other_key

datatype outcome = Running player | Returned_True | Raised py_error

definition cap_read :: "nat \<Rightarrow> nat \<Rightarrow> bool \<times> nat option \<times> nat" where
  "cap_read n_frames pos = (if pos < n_frames then (True, Some pos, pos + 1) else (False, None, pos))"

definition initial_player :: "bool \<Rightarrow> player" where
  "initial_player overlays =
     \<lparr>paused = False, frame_count = 0, show_overlays = overlays, frame = None, position = 0\<rparr>"

text \<open>The chain of \<^verbatim>\<open>if key == ord(...)\<close> at the end of the loop body.\<close>

definition handle_key :: "nat \<Rightarrow> key \<Rightarrow> player \<Rightarrow> outcome" where
  "handle_key n_frames k st =
     (if k = Key_q then Returned_True
      else if k = Key_p then Running (st\<lparr>paused := \<not> paused st\<rparr>)
      else if k = Key_s \<and> paused st then
        (let (ret, fr, pos) = cap_read n_frames (position st);
             st' = st\<lparr>frame := fr, position := pos\<rparr>
         in if ret then Running (st'\<lparr>frame_count := frame_count st' + 1\<rparr>) else Running st')
      else if k = Key_r then Running (st\<lparr>position := 0, frame_count := 0, paused := False\<rparr>)
      else if k = Key_f then Running (st\<lparr>show_overlays := \<not> show_overlays st\<rparr>)
      else Running st)"

text \<open>
  One iteration: the read when not paused (a failed read leaves the loop, and the
  function returns \<^verbatim>\<open>True\<close> after its clean-up), then
  \<^verbatim>\<open>display_frame = frame.copy()\<close>, which raises when \<^verbatim>\<open>frame\<close> is
  \<^verbatim>\<open>None\<close>, then the key that \<^verbatim>\<open>cv2.waitKey\<close> returns. The rendering of the
  displayed frame is the subject of the next section.
\<close>

definition loop_body :: "nat \<Rightarrow> key \<Rightarrow> player \<Rightarrow> outcome" where
  "loop_body n_frames k st =
     (let read =
        (if \<not> paused st then
           (let (ret, fr, pos) = cap_read n_frames (position st);
                st' = st\<lparr>frame := fr, position := pos\<rparr>
            in if \<not> ret then None else Some (st'\<lparr>frame_count := frame_count st' + 1\<rparr>))
         else Some st)
      in case read of
           None \<Rightarrow> Returned_True
         | Some st1 \<Rightarrow>
             (case frame st1 of
                None \<Rightarrow> Raised AttributeError
              | Some display_frame \<Rightarrow> handle_key n_frames k st1))"

text \<open>
  The loop, run on the keys of successive iterations; \<open>Running\<close> when the keys are
  used up and the loop has not ended.
\<close>

fun play_video :: "nat \<Rightarrow> player \<Rightarrow> key list \<Rightarrow> outcome" where
  "play_video n_frames st [] = Running st"
| "play_video n_frames st (k # ks) =
     (case loop_body n_frames k st of
        Running st' \<Rightarrow> play_video n_frames st' ks
      | Returned_True \<Rightarrow> Returned_True
      | Raised e \<Rightarrow> Raised e)"

section \<open>Scaled display copies of the zones\<close>

text \<open>
  \<^verbatim>\<open>play_video\<close> scales a shallow copy of every zone dictionary before it composites
  a frame. Whether the stored dictionaries stay as they are depends on which objects
  the copy shares with them, so this part of the program is modelled on an explicit
  store: an address is an index into the list of objects, a new object is appended, and
  a value inside an object is an immediate value or a reference to another object.
\<close>

datatype pyval = PNone | PInt int | PFloat real | PStr string | PRef nat

datatype pyobj = PDict "(string \<times> pyval) list" | PList "pyval list"

type_synonym heap = "pyobj list"

definition alloc :: "heap \<Rightarrow> pyobj \<Rightarrow> heap \<times> nat" where
  "alloc h obj = (h @ [obj], length h)"

text \<open>\<^verbatim>\<open>d[k] = v\<close> on the dictionary at address \<open>a\<close>.\<close>

definition dict_set :: "heap \<Rightarrow> nat \<Rightarrow> string \<Rightarrow> pyval \<Rightarrow> heap" where
  "dict_set h a k v =
     (if a < length h then
        (case h ! a of
           PDict kvs \<Rightarrow> h[a := PDict (AList.update k v kvs)]
         | PList vs \<Rightarrow> h)
      else h)"

text \<open>\<^verbatim>\<open>frame_config[k]\<close>: the object at \<open>a\<close> subscripted by a string.\<close>

definition subscript :: "heap \<Rightarrow> nat \<Rightarrow> string \<Rightarrow> py_error + pyval" where
  "subscript h a k =
     (if a < length h then
        (case h ! a of
           PDict kvs \<Rightarrow> (case map_of kvs k of None \<Rightarrow> Inl KeyError | Some v \<Rightarrow> Inr v)
         | PList vs \<Rightarrow> Inl TypeError)
      else Inl TypeError)"

text \<open>\<^verbatim>\<open>frame_config[k][i]\<close>.\<close>

definition item :: "heap \<Rightarrow> nat \<Rightarrow> string \<Rightarrow> int \<Rightarrow> py_error + pyval" where
  "item h a k i =
     (case subscript h a k of
        Inl e \<Rightarrow> Inl e
      | Inr (PRef l) \<Rightarrow>
          (if l < length h then
             (case h ! l of
                PList vs \<Rightarrow> (case py_index vs i of Inl e \<Rightarrow> Inl e | Inr j \<Rightarrow> Inr (vs ! j))
              | PDict kvs \<Rightarrow> Inl KeyError)
           else Inl TypeError)
      | Inr v \<Rightarrow> Inl TypeError)"

text \<open>\<^verbatim>\<open>int(v * scale)\<close> for a coordinate \<open>v\<close>.\<close>

definition scaled :: "pyval \<Rightarrow> real \<Rightarrow> py_error + pyval" where
  "scaled v scale =
     (case v of
        PInt n \<Rightarrow> Inr (PInt (py_int (real_of_int n * scale)))
      | PFloat x \<Rightarrow> Inr (PInt (py_int (x * scale)))
      | PNone \<Rightarrow> Inl TypeError
      | PStr s \<Rightarrow> Inl TypeError
      | PRef l \<Rightarrow> Inl TypeError)"

text \<open>
  The list display
  \<^verbatim>\<open>[int(frame_config[k][0] * scale_x), int(frame_config[k][1] * scale_y)]\<close>.
\<close>

definition scaled_pair ::
  "heap \<Rightarrow> nat \<Rightarrow> string \<Rightarrow> real \<Rightarrow> real \<Rightarrow> py_error + pyobj" where
  "scaled_pair h a k scale_x scale_y =
     (case item h a k 0 of
        Inl e \<Rightarrow> Inl e
      | Inr x \<Rightarrow>
          (case scaled x scale_x of
             Inl e \<Rightarrow> Inl e
           | Inr x' \<Rightarrow>
               (case item h a k 1 of
                  Inl e \<Rightarrow> Inl e
                | Inr y \<Rightarrow>
                    (case scaled y scale_y of
                       Inl e \<Rightarrow> Inl e
                     | Inr y' \<Rightarrow> Inr (PList [x', y'])))))"

text \<open>
  One iteration of the loop over \<^verbatim>\<open>frames_config\<close>: \<^verbatim>\<open>scaled_config =
  frame_config.copy()\<close> allocates a dictionary with the same entries (the same
  references), and each of the two assignments allocates a new list and stores its
  reference in the copy. An exception leaves the store as far as it got.
\<close>

definition scale_config :: "heap \<Rightarrow> real \<Rightarrow> real \<Rightarrow> nat \<Rightarrow> heap \<times> (py_error + nat)" where
  "scale_config h scale_x scale_y frame_config =
     (if frame_config < length h then
        (case h ! frame_config of
           PList vs \<Rightarrow> (fst (alloc h (PList vs)), Inl TypeError)
         | PDict kvs \<Rightarrow>
             let (h1, scaled_config) = alloc h (PDict kvs)
             in (case scaled_pair h1 frame_config ''top_left'' scale_x scale_y of
                   Inl e \<Rightarrow> (h1, Inl e)
                 | Inr tl_list \<Rightarrow>
                     let (h2, l1) = alloc h1 tl_list;
                         h3 = dict_set h2 scaled_config ''top_left'' (PRef l1)
                     in (case scaled_pair h3 frame_config ''bottom_right'' scale_x scale_y of
                           Inl e \<Rightarrow> (h3, Inl e)
                         | Inr br_list \<Rightarrow>
                             let (h4, l2) = alloc h3 br_list;
                                 h5 = dict_set h4 scaled_config ''bottom_right'' (PRef l2)
                             in (h5, Inr scaled_config))))
      else (h, Inl AttributeError))"

fun scale_configs ::
  "heap \<Rightarrow> real \<Rightarrow> real \<Rightarrow> nat list \<Rightarrow> heap \<times> (py_error + nat list)" where
  "scale_configs h scale_x scale_y [] = (h, Inr [])"
| "scale_configs h scale_x scale_y (frame_config # rest) =
     (case scale_config h scale_x scale_y frame_config of
        (h', Inl e) \<Rightarrow> (h', Inl e)
      | (h', Inr scaled_config) \<Rightarrow>
          (case scale_configs h' scale_x scale_y rest of
             (h'', Inl e) \<Rightarrow> (h'', Inl e)
           | (h'', Inr scaled_rest) \<Rightarrow> (h'', Inr (scaled_config # scaled_rest))))"

text \<open>
  Reading a stored dictionary the way \<^verbatim>\<open>draw_frame_overlays\<close> reads it gives the
  zone record the compositor works on. A coordinate list holds two integers; any other
  entry has no zone record.
\<close>

definition coordinate :: "heap \<Rightarrow> nat \<Rightarrow> string \<Rightarrow> py_error + int \<times> int" where
  "coordinate h a k =
     (case subscript h a k of
        Inl e \<Rightarrow> Inl e
      | Inr (PRef l) \<Rightarrow>
          (if l < length h then
             (case h ! l of
                PList [PInt x, PInt y] \<Rightarrow> Inr (x, y)
              | PList [v, w] \<Rightarrow> Inl TypeError
              | PList vs \<Rightarrow> Inl ValueError
              | PDict kvs \<Rightarrow> Inl TypeError)
           else Inl TypeError)
      | Inr v \<Rightarrow> Inl TypeError)"

definition get_key :: "heap \<Rightarrow> nat \<Rightarrow> string \<Rightarrow> py_error + pyval option" where
  "get_key h a k =
     (if a < length h then
        (case h ! a of
           PDict kvs \<Rightarrow> Inr (map_of kvs k)
         | PList vs \<Rightarrow> Inl AttributeError)
      else Inl AttributeError)"

definition name_field :: "pyval option \<Rightarrow> py_error + string field" where
  "name_field v =
     (case v of
        None \<Rightarrow> Inr Absent
      | Some PNone \<Rightarrow> Inr Null
      | Some (PStr s) \<Rightarrow> Inr (Value s)
      | Some w \<Rightarrow> Inl TypeError)"

definition rotation_field :: "pyval option \<Rightarrow> py_error + real field" where
  "rotation_field v =
     (case v of
        None \<Rightarrow> Inr Absent
      | Some PNone \<Rightarrow> Inr Null
      | Some (PInt n) \<Rightarrow> Inr (Value (real_of_int n))
      | Some (PFloat x) \<Rightarrow> Inr (Value x)
      | Some w \<Rightarrow> Inl TypeError)"

fun channels :: "pyval list \<Rightarrow> py_error + int list" where
  "channels [] = Inr []"
| "channels (PInt n # vs) = (case channels vs of Inl e \<Rightarrow> Inl e | Inr ns \<Rightarrow> Inr (n # ns))"
| "channels (v # vs) = Inl TypeError"

definition color_field :: "heap \<Rightarrow> pyval option \<Rightarrow> py_error + int list field" where
  "color_field h v =
     (case v of
        None \<Rightarrow> Inr Absent
      | Some PNone \<Rightarrow> Inr Null
      | Some (PRef l) \<Rightarrow>
          (if l < length h then
             (case h ! l of
                PList vs \<Rightarrow> (case channels vs of Inl e \<Rightarrow> Inl e | Inr ns \<Rightarrow> Inr (Value ns))
              | PDict kvs \<Rightarrow> Inl TypeError)
           else Inl TypeError)
      | Some w \<Rightarrow> Inl TypeError)"

definition zone_at :: "heap \<Rightarrow> nat \<Rightarrow> py_error + zone" where
  "zone_at h a =
     (case coordinate h a ''top_left'' of
        Inl e \<Rightarrow> Inl e
      | Inr tlc \<Rightarrow>
          (case coordinate h a ''bottom_right'' of
             Inl e \<Rightarrow> Inl e
           | Inr brc \<Rightarrow>
               (case get_key h a ''rotation'' of
                  Inl e \<Rightarrow> Inl e
                | Inr r \<Rightarrow>
                    (case rotation_field r of
                       Inl e \<Rightarrow> Inl e
                     | Inr rot \<Rightarrow>
                         (case get_key h a ''color'' of
                            Inl e \<Rightarrow> Inl e
                          | Inr c \<Rightarrow>
                              (case color_field h c of
                                 Inl e \<Rightarrow> Inl e
                               | Inr col \<Rightarrow>
                                   (case get_key h a ''name'' of
                                      Inl e \<Rightarrow> Inl e
                                    | Inr n \<Rightarrow>
                                        (case name_field n of
                                           Inl e \<Rightarrow> Inl e
                                         | Inr nm \<Rightarrow>
                                             Inr \<lparr>name = nm, top_left = tlc,
                                                  bottom_right = brc, rotation = rot,
                                                  color = col\<rparr>))))))))"

fun zones_at :: "heap \<Rightarrow> nat list \<Rightarrow> py_error + zone list" where
  "zones_at h [] = Inr []"
| "zones_at h (a # as) =
     (case zone_at h a of
        Inl e \<Rightarrow> Inl e
      | Inr z \<Rightarrow> (case zones_at h as of Inl e \<Rightarrow> Inl e | Inr zs \<Rightarrow> Inr (z # zs)))"

text \<open>\<^verbatim>\<open>draw_frame_overlays\<close> called on dictionaries of the store: it only reads them.\<close>

definition draw_frame_overlays_at :: "heap \<Rightarrow> nat list \<Rightarrow> py_error + cv_call list" where
  "draw_frame_overlays_at h frames_config =
     (case zones_at h frames_config of Inl e \<Rightarrow> Inl e | Inr zs \<Rightarrow> draw_frame_overlays zs)"

text \<open>
  The part of the loop body of \<^verbatim>\<open>play_video\<close> between \<^verbatim>\<open>frame.copy()\<close> and the
  text overlay: the stored zone dictionaries are at the addresses \<open>frames_config\<close>,
  \<open>win_width\<close> and \<open>win_height\<close> are the configured window size (\<open>None\<close> and 0 are
  false in \<^verbatim>\<open>if window_width and window_height\<close>), \<open>width\<close> and \<open>height\<close> the
  size of the video. The result is the store afterwards and the drawing calls made on
  the displayed frame.
\<close>

definition unscaled_display ::
  "heap \<Rightarrow> nat list \<Rightarrow> bool \<Rightarrow> heap \<times> (py_error + cv_call list)" where
  "unscaled_display h frames_config overlays =
     (if overlays \<and> frames_config \<noteq> [] then (h, draw_frame_overlays_at h frames_config)
      else (h, Inr []))"

definition display ::
  "heap \<Rightarrow> nat list \<Rightarrow> int option \<Rightarrow> int option \<Rightarrow> int \<Rightarrow> int \<Rightarrow> bool \<Rightarrow>
     heap \<times> (py_error + cv_call list)" where
  "display h frames_config win_width win_height width height overlays =
     (case (win_width, win_height) of
        (Some w, Some ht) \<Rightarrow>
          (if w \<noteq> 0 \<and> ht \<noteq> 0 then
             (if width = 0 \<or> height = 0 then (h, Inl ZeroDivisionError)
              else
                let scale_x = real_of_int w / real_of_int width;
                    scale_y = real_of_int ht / real_of_int height
                in if overlays \<and> frames_config \<noteq> [] then
                     (case scale_configs h scale_x scale_y frames_config of
                        (h', Inl e) \<Rightarrow> (h', Inl e)
                      | (h', Inr scaled_frames_config) \<Rightarrow>
                          (h', draw_frame_overlays_at h' scaled_frames_config))
                   else (h, Inr []))
           else unscaled_display h frames_config overlays)
      | _ \<Rightarrow> unscaled_display h frames_config overlays)"

text \<open>
  Displaying one frame after another; \<open>shown\<close> holds, for every displayed frame, whether
  the overlays are switched on at that moment. An exception ends the playback.
\<close>

fun display_frames ::
  "heap \<Rightarrow> nat list \<Rightarrow> int option \<Rightarrow> int option \<Rightarrow> int \<Rightarrow> int \<Rightarrow> bool list \<Rightarrow> heap" where
  "display_frames h frames_config win_width win_height width height [] = h"
| "display_frames h frames_config win_width win_height width height (overlays # rest) =
     (case display h frames_config win_width win_height width height overlays of
        (h', Inl e) \<Rightarrow> h'
      | (h', Inr calls) \<Rightarrow>
          display_frames h' frames_config win_width win_height width height rest)"

section \<open>Example data\<close>

text \<open>
  A configuration with three zones, the first and the last with \<^verbatim>\<open>"color": null\<close>; a
  fourth zone; an environment whose serialisation is the identity; the editor opened on
  the configuration; and a store that holds one zone dictionary with its three lists.
\<close>

definition zone_a :: zone where
  "zone_a = \<lparr>name = Value ''A'', top_left = (50, 50), bottom_right = (150, 150),
             rotation = Value 0, color = Null\<rparr>"

definition zone_b :: zone where
  "zone_b = \<lparr>name = Value ''B'', top_left = (200, 40), bottom_right = (320, 90),
             rotation = Value 0, color = Value [0, 0, 255]\<rparr>"

definition zone_c :: zone where
  "zone_c = \<lparr>name = Absent, top_left = (10, 300), bottom_right = (60, 340),
             rotation = Absent, color = Null\<rparr>"

definition example_config :: config where
  "example_config = \<lparr>video_path = Value ''sample_video.mp4'', window_width = Value 800,
     window_height = Value 600, fps_display = Value True, draw_frames = Value True,
     frames = Value [zone_a, zone_b, zone_c]\<rparr>"

definition zone_d :: zone where
  "zone_d = \<lparr>name = Value ''D'', top_left = (10, 10), bottom_right = (40, 30),
             rotation = Value 0, color = Value [0, 255, 0]\<rparr>"

definition example_environment :: "config environment" where
  "example_environment =
     \<lparr>dump_json = (\<lambda>cfg. cfg), load_json = Some, can_write = (\<lambda>path. True),
      control_bounds = (\<lambda>v. if v = Rotation then (- 180, 180) else (0, 640)),
      video_size = Some (640, 480)\<rparr>"

definition example_editor :: editor where
  "example_editor =
     \<lparr>config = example_config, frames_data = [zone_a, zone_b, zone_c],
      selected_frame_index = 0, zoom_factor = 1.0, pan_x = 0, pan_y = 0,
      last_mouse_x = 0, last_mouse_y = 0, is_panning = False\<rparr>"

definition example_heap :: heap where
  "example_heap =
     [PList [PInt 50, PInt 50], PList [PInt 150, PInt 150], PList [PInt 0, PInt 0, PInt 255],
      PDict [(''name'', PStr ''A''), (''top_left'', PRef 0), (''bottom_right'', PRef 1),
             (''rotation'', PInt 0), (''color'', PRef 2)]]"

section \<open>Properties of the geometry\<close>

lemma py_int_of_int: "py_int (real_of_int n) = n"
  by (simp add: py_int_def)

text \<open>
  Claim C1. With \<open>rotation_degrees = 0\<close> the operation returns the four axis-aligned
  corners built from the raw \<^verbatim>\<open>top_left\<close> and \<^verbatim>\<open>bottom_right\<close> values, in the
  order top-left, top-right, bottom-right, bottom-left. The coordinates are integers, so
  the truncation toward zero leaves them as they are; they lie in the range of the
  32-bit result array.
\<close>

theorem rotated_corners_at_zero:
  assumes "in_int32 x1" and "in_int32 y1" and "in_int32 x2" and "in_int32 y2"
  shows "get_rotated_rectangle_points (x1, y1) (x2, y2) 0 =
           Some [(x1, y1), (x2, y1), (x2, y2), (x1, y2)]"
  using assms
  by (simp add: get_rotated_rectangle_points_def radians_def astype_int32_def
      py_int_of_int Let_def)

theorem rotated_corners_at_zero_witness:
  "in_int32 50 \<and> in_int32 150 \<and>
   get_rotated_rectangle_points (50, 50) (150, 150) 0 =
     Some [(50, 50), (150, 50), (150, 150), (50, 150)]"
  using rotated_corners_at_zero [of 50 50 150 150] by (simp add: in_int32_def)

section \<open>Properties of the colour assignment at load\<close>

lemma saturation_alternates:
  "0.8 + real (i mod 2) * 0.2 = (if even i then 0.8 else (1::real))"
  by (cases "even i") (simp_all add: mod_2_eq_odd)

lemma value_cycles:
  "min (0.9 + real (i mod 3) * 0.1) (1::real) = (if i mod 3 = 0 then 0.9 else 1)"
proof -
  have "i mod 3 = 0 \<or> i mod 3 = 1 \<or> i mod 3 = 2" by arith
  then show ?thesis by auto
qed

lemma generate_colors_nth:
  "i < n \<Longrightarrow> generate_colors n ! i = batch_color n i"
  using saturation_alternates [of i] value_cycles [of i]
  by (simp add: generate_colors_def batch_color_def Let_def)

lemma length_generate_colors: "length (generate_colors n) = n"
  by (simp add: generate_colors_def)

lemma colorless_rank_less:
  assumes "j < length fs" and "py_get (color (fs ! j)) = None"
  shows "length (colorless (take j fs)) < length (colorless fs)"
proof -
  have "fs = take j fs @ fs ! j # drop (Suc j) fs"
    using assms(1) by (simp add: id_take_nth_drop)
  then have "colorless fs = colorless (take j fs) @ colorless (fs ! j # drop (Suc j) fs)"
    by (metis colorless_def filter_append)
  then show ?thesis using assms(2) by (simp add: colorless_def)
qed

lemma assign_colors_spec:
  "color_index + length (colorless fs) \<le> length auto_colors \<Longrightarrow>
   \<exists>fs'. assign_colors fs auto_colors color_index = Inr fs' \<and> length fs' = length fs \<and>
     (\<forall>j<length fs. fs' ! j =
        (if py_get (color (fs ! j)) = None
         then (fs ! j)\<lparr>color := Value (auto_colors ! (color_index + length (colorless (take j fs))))\<rparr>
         else fs ! j))"
proof (induction fs arbitrary: color_index)
  case Nil
  then show ?case by simp
next
  case (Cons z zs)
  let ?P = "\<lambda>ci fs'. \<forall>j<length (z # zs). fs' ! j =
        (if py_get (color ((z # zs) ! j)) = None
         then ((z # zs) ! j)\<lparr>color :=
                Value (auto_colors ! (ci + length (colorless (take j (z # zs)))))\<rparr>
         else (z # zs) ! j)"
  show ?case
  proof (cases "py_get (color z) = None")
    case True
    with Cons.prems have "Suc color_index + length (colorless zs) \<le> length auto_colors"
      by (simp add: colorless_def)
    from Cons.IH [OF this] obtain fs' where
      r: "assign_colors zs auto_colors (Suc color_index) = Inr fs'" and
      l: "length fs' = length zs" and
      n: "\<forall>j<length zs. fs' ! j =
        (if py_get (color (zs ! j)) = None
         then (zs ! j)\<lparr>color :=
                Value (auto_colors ! (Suc color_index + length (colorless (take j zs))))\<rparr>
         else zs ! j)"
      by blast
    from Cons.prems True have lt: "color_index < length auto_colors"
      by (simp add: colorless_def)
    have "assign_colors (z # zs) auto_colors color_index =
        Inr (z\<lparr>color := Value (auto_colors ! color_index)\<rparr> # fs')"
      using True lt r by simp
    moreover have "?P color_index (z\<lparr>color := Value (auto_colors ! color_index)\<rparr> # fs')"
    proof (intro allI impI)
      fix j assume "j < length (z # zs)"
      then show "(z\<lparr>color := Value (auto_colors ! color_index)\<rparr> # fs') ! j =
        (if py_get (color ((z # zs) ! j)) = None
         then ((z # zs) ! j)\<lparr>color :=
                Value (auto_colors ! (color_index + length (colorless (take j (z # zs)))))\<rparr>
         else (z # zs) ! j)"
        using n True by (cases j) (simp_all add: colorless_def)
    qed
    ultimately show ?thesis using l by simp
  next
    case False
    with Cons.prems have "color_index + length (colorless zs) \<le> length auto_colors"
      by (simp add: colorless_def)
    from Cons.IH [OF this] obtain fs' where
      r: "assign_colors zs auto_colors color_index = Inr fs'" and
      l: "length fs' = length zs" and
      n: "\<forall>j<length zs. fs' ! j =
        (if py_get (color (zs ! j)) = None
         then (zs ! j)\<lparr>color :=
                Value (auto_colors ! (color_index + length (colorless (take j zs))))\<rparr>
         else zs ! j)"
      by blast
    have "assign_colors (z # zs) auto_colors color_index = Inr (z # fs')"
      using False r by auto
    moreover have "?P color_index (z # fs')"
    proof (intro allI impI)
      fix j assume "j < length (z # zs)"
      then show "(z # fs') ! j =
        (if py_get (color ((z # zs) ! j)) = None
         then ((z # zs) ! j)\<lparr>color :=
                Value (auto_colors ! (color_index + length (colorless (take j (z # zs)))))\<rparr>
         else (z # zs) ! j)"
        using n False by (cases j) (auto simp: colorless_def)
    qed
    ultimately show ?thesis using l by simp
  qed
qed

text \<open>
  What \<^verbatim>\<open>load_config\<close> returns for a parsed configuration with a \<^verbatim>\<open>frames\<close>
  array: the zone at position \<open>j\<close> is unchanged when it has a colour, and otherwise
  gets the colour of the batch generator for its rank among the colourless zones.
\<close>

lemma load_config_parsed:
  assumes "frames cfg = Value fs"
  shows "\<exists>fs'. load_config (Parsed cfg) = Inr (Some (cfg\<lparr>frames := Value fs'\<rparr>)) \<and>
     length fs' = length fs \<and>
     (\<forall>j<length fs. fs' ! j =
        (if py_get (color (fs ! j)) = None
         then (fs ! j)\<lparr>color :=
                Value (batch_color (length (colorless fs)) (length (colorless (take j fs))))\<rparr>
         else fs ! j))"
proof (cases "colorless fs = []")
  case True
  have "\<forall>j<length fs. py_get (color (fs ! j)) \<noteq> None"
  proof (intro allI impI)
    fix j assume "j < length fs"
    then have "fs ! j \<in> set fs" by simp
    then show "py_get (color (fs ! j)) \<noteq> None"
      using True by (auto simp: colorless_def filter_empty_conv)
  qed
  moreover have "load_config (Parsed cfg) = Inr (Some (cfg\<lparr>frames := Value fs\<rparr>))"
    using assms True by (simp add: load_config_def)
  ultimately show ?thesis by (intro exI [of _ fs]) auto
next
  case False
  let ?auto = "generate_colors (length (colorless fs))"
  have "0 + length (colorless fs) \<le> length ?auto"
    by (simp add: length_generate_colors)
  from assign_colors_spec [OF this] obtain fs' where
    r: "assign_colors fs ?auto 0 = Inr fs'" and
    l: "length fs' = length fs" and
    n: "\<forall>j<length fs. fs' ! j =
        (if py_get (color (fs ! j)) = None
         then (fs ! j)\<lparr>color := Value (?auto ! (0 + length (colorless (take j fs))))\<rparr>
         else fs ! j)"
    by blast
  have "load_config (Parsed cfg) = Inr (Some (cfg\<lparr>frames := Value fs'\<rparr>))"
    using assms False r by (simp add: load_config_def)
  moreover have "\<forall>j<length fs. fs' ! j =
        (if py_get (color (fs ! j)) = None
         then (fs ! j)\<lparr>color :=
                Value (batch_color (length (colorless fs)) (length (colorless (take j fs))))\<rparr>
         else fs ! j)"
  proof (intro allI impI)
    fix j assume j: "j < length fs"
    show "fs' ! j =
        (if py_get (color (fs ! j)) = None
         then (fs ! j)\<lparr>color :=
                Value (batch_color (length (colorless fs)) (length (colorless (take j fs))))\<rparr>
         else fs ! j)"
    proof (cases "py_get (color (fs ! j)) = None")
      case True
      then have "length (colorless (take j fs)) < length (colorless fs)"
        using j by (simp add: colorless_rank_less)
      then show ?thesis using n j True by (simp add: generate_colors_nth)
    next
      case False
      then show ?thesis using n j by auto
    qed
  qed
  ultimately show ?thesis using l by blast
qed


lemma batch_color_2_0: "batch_color 2 0 = [45, 45, 229]"
  by (simp add: batch_color_def hsv_to_rgb_def py_int_def Let_def)

lemma batch_color_2_1: "batch_color 2 (Suc 0) = [255, 255, 0]"
  by (simp add: batch_color_def hsv_to_rgb_def py_int_def Let_def)

lemma example_frames_colored:
  assumes "length fs' = length [zone_a, zone_b, zone_c]"
    and "\<forall>j<length [zone_a, zone_b, zone_c]. fs' ! j =
        (if py_get (color ([zone_a, zone_b, zone_c] ! j)) = None
         then ([zone_a, zone_b, zone_c] ! j)\<lparr>color :=
                Value (batch_color (length (colorless [zone_a, zone_b, zone_c]))
                   (length (colorless (take j [zone_a, zone_b, zone_c]))))\<rparr>
         else [zone_a, zone_b, zone_c] ! j)"
  shows "fs' = [zone_a\<lparr>color := Value [45, 45, 229]\<rparr>, zone_b, zone_c\<lparr>color := Value [255, 255, 0]\<rparr>]"
proof -
  let ?fs = "[zone_a, zone_b, zone_c]"
  have c: "length (colorless ?fs) = 2"
    by (simp add: colorless_def zone_a_def zone_b_def zone_c_def py_get_def)
  have c0: "length (colorless (take 0 ?fs)) = 0"
    by (simp add: colorless_def)
  have c2: "length (colorless (take 2 ?fs)) = Suc 0"
    by (simp add: colorless_def zone_a_def zone_b_def py_get_def)
  have ca: "py_get (color (?fs ! 0)) = None" by (simp add: zone_a_def py_get_def)
  have cb: "py_get (color (?fs ! 1)) \<noteq> None" by (simp add: zone_b_def py_get_def)
  have cc: "py_get (color (?fs ! 2)) = None" by (simp add: zone_c_def py_get_def)
  have "fs' ! 0 = (?fs ! 0)\<lparr>color := Value (batch_color 2 0)\<rparr>"
    using assms(2) [rule_format, of 0] ca by (simp only: c c0 if_True) simp
  then have n0: "fs' ! 0 = zone_a\<lparr>color := Value [45, 45, 229]\<rparr>"
    by (simp add: batch_color_2_0)
  have n1: "fs' ! 1 = zone_b"
    using assms(2) [rule_format, of 1] cb by auto
  have "fs' ! 2 = (?fs ! 2)\<lparr>color := Value (batch_color 2 (Suc 0))\<rparr>"
    using assms(2) [rule_format, of 2] cc by (simp only: c c2 if_True) simp
  then have n2: "fs' ! 2 = zone_c\<lparr>color := Value [255, 255, 0]\<rparr>"
    by (simp add: batch_color_2_1)
  have "length fs' = 3" using assms(1) by simp
  then obtain a b c where abc: "fs' = [a, b, c]"
    by (metis length_0_conv length_Suc_conv numeral_3_eq_3)
  show ?thesis using n0 n1 n2 unfolding abc by simp
qed


lemma load_example_config:
  "load_config (Parsed example_config) =
     Inr (Some (example_config\<lparr>frames :=
       Value [zone_a\<lparr>color := Value [45, 45, 229]\<rparr>, zone_b,
              zone_c\<lparr>color := Value [255, 255, 0]\<rparr>]\<rparr>))"
proof -
  have f: "frames example_config = Value [zone_a, zone_b, zone_c]"
    by (simp add: example_config_def)
  from load_config_parsed [OF f] obtain fs' where
    r: "load_config (Parsed example_config) = Inr (Some (example_config\<lparr>frames := Value fs'\<rparr>))" and
    l: "length fs' = length [zone_a, zone_b, zone_c]" and
    n: "\<forall>j<length [zone_a, zone_b, zone_c]. fs' ! j =
        (if py_get (color ([zone_a, zone_b, zone_c] ! j)) = None
         then ([zone_a, zone_b, zone_c] ! j)\<lparr>color :=
                Value (batch_color (length (colorless [zone_a, zone_b, zone_c]))
                   (length (colorless (take j [zone_a, zone_b, zone_c]))))\<rparr>
         else [zone_a, zone_b, zone_c] ! j)"
    by blast
  show ?thesis using r example_frames_colored [OF l n] by simp
qed

text \<open>
  Claim C10. Whenever \<^verbatim>\<open>load_config\<close> of \<^verbatim>\<open>main.py\<close> returns a configuration,
  every zone of its \<^verbatim>\<open>frames\<close> array has a colour that is not \<^verbatim>\<open>None\<close>; and the
  batch generator never runs short of colours, so the assignment loop never raises
  \<^verbatim>\<open>IndexError\<close>.
\<close>

theorem load_config_every_zone_colored:
  "load_config read \<noteq> Inl IndexError \<and>
   (load_config read = Inr (Some cfg') \<longrightarrow> frames cfg' = Value fs' \<longrightarrow>
      list_all (\<lambda>z. py_get (color z) \<noteq> None) fs')"
proof (cases read)
  case FileNotFound
  then show ?thesis by (simp add: load_config_def)
next
  case JSONDecodeError
  then show ?thesis by (simp add: load_config_def)
next
  case (Parsed cfg)
  show ?thesis
  proof (cases "frames cfg")
    case Absent
    with Parsed show ?thesis by (auto simp: load_config_def)
  next
    case Null
    with Parsed show ?thesis by (auto simp: load_config_def)
  next
    case (Value fs)
    from load_config_parsed [OF Value] obtain fs2 where
      r: "load_config (Parsed cfg) = Inr (Some (cfg\<lparr>frames := Value fs2\<rparr>))" and
      l: "length fs2 = length fs" and
      n: "\<forall>j<length fs. fs2 ! j =
        (if py_get (color (fs ! j)) = None
         then (fs ! j)\<lparr>color :=
                Value (batch_color (length (colorless fs)) (length (colorless (take j fs))))\<rparr>
         else fs ! j)"
      by blast
    have "list_all (\<lambda>z. py_get (color z) \<noteq> None) fs2"
      unfolding list_all_length
    proof (intro allI impI)
      fix j assume "j < length fs2"
      then show "py_get (color (fs2 ! j)) \<noteq> None"
        using n l by (cases "py_get (color (fs ! j)) = None") (auto simp: py_get_def)
    qed
    with r Parsed show ?thesis by auto
  qed
qed

theorem load_config_every_zone_colored_witness:
  "load_config (Parsed example_config) =
     Inr (Some (example_config\<lparr>frames :=
       Value [zone_a\<lparr>color := Value [45, 45, 229]\<rparr>, zone_b,
              zone_c\<lparr>color := Value [255, 255, 0]\<rparr>]\<rparr>)) \<and>
   list_all (\<lambda>z. py_get (color z) \<noteq> None)
     [zone_a\<lparr>color := Value [45, 45, 229]\<rparr>, zone_b, zone_c\<lparr>color := Value [255, 255, 0]\<rparr>]"
  using load_config_every_zone_colored
    [of "Parsed example_config"
        "example_config\<lparr>frames :=
           Value [zone_a\<lparr>color := Value [45, 45, 229]\<rparr>, zone_b,
                  zone_c\<lparr>color := Value [255, 255, 0]\<rparr>]\<rparr>"
        "[zone_a\<lparr>color := Value [45, 45, 229]\<rparr>, zone_b, zone_c\<lparr>color := Value [255, 255, 0]\<rparr>]"]
    load_example_config
  by simp

section \<open>Properties of the compositors\<close>

lemma overlay_zone_shape:
  "overlay_zone i z = Inr cs \<Longrightarrow>
   map shape cs = [(Outline, Overlay), (Fill, Overlay), (Label, Overlay), (Label, Overlay)]"
  by (auto simp: overlay_zone_def shape_def Let_def split: option.splits)

lemma overlay_zones_shape:
  "overlay_zones i zs = Inr cs \<Longrightarrow>
   map shape cs = concat (replicate (length zs)
     [(Outline, Overlay), (Fill, Overlay), (Label, Overlay), (Label, Overlay)])"
proof (induction zs arbitrary: i cs)
  case Nil
  then show ?case by simp
next
  case (Cons z zs)
  from Cons.prems obtain c1 c2 where
    a: "overlay_zone i z = Inr c1" and b: "overlay_zones (i + 1) zs = Inr c2" and c: "cs = c1 @ c2"
    by (auto split: sum.splits)
  show ?case using overlay_zone_shape [OF a] Cons.IH [OF b] c by simp
qed

lemma draw_frame_overlay_shape:
  "draw_frame_overlay z sel = Inr cs \<Longrightarrow>
   map shape cs = [(Outline, Image), (Copying, Overlay), (Fill, Overlay), (Blend, Image),
                   (Label, Image), (Label, Image)] \<and>
   cs ! 3 = AddWeighted Overlay 0.3 Image 0.7 Image"
  by (auto simp: draw_frame_overlay_def shape_def Let_def split: option.splits if_splits)

lemma blend_calls_append: "blend_calls (xs @ ys) = blend_calls xs + blend_calls ys"
  by (simp add: blend_calls_def)

lemma blend_calls_shape:
  "blend_calls cs = length (filter (\<lambda>s. fst s = Blend) (map shape cs))"
  by (simp add: blend_calls_def shape_def filter_map comp_def)

lemma draw_all_frames_blends:
  "draw_all_frames i selected zs = Inr cs \<Longrightarrow> blend_calls cs = length zs"
proof (induction zs arbitrary: i cs)
  case Nil
  then show ?case by (simp add: blend_calls_def)
next
  case (Cons z zs)
  from Cons.prems obtain c1 c2 where
    a: "draw_frame_overlay z (int i = selected) = Inr c1" and
    b: "draw_all_frames (i + 1) selected zs = Inr c2" and c: "cs = c1 @ c2"
    by (auto split: sum.splits)
  have "blend_calls c1 = 1"
    using draw_frame_overlay_shape [OF a] by (simp add: blend_calls_shape)
  then show ?case using Cons.IH [OF b] c by (simp add: blend_calls_append)
qed

lemma no_blend_in_zone_calls:
  "filter (\<lambda>s. fst s = Blend) (concat (replicate n
     [(Outline, Overlay), (Fill, Overlay), (Label, Overlay), (Label, Overlay)])) = []"
  by (induction n) simp_all

text \<open>
  Claim C2, as the code has it. In \<^verbatim>\<open>draw_frame_overlays\<close> of \<^verbatim>\<open>main.py\<close> the
  outline, the filled polygon and the two label strokes of every zone are all drawn on
  the one working copy, and the last call is the only blend,
  \<open>result = 0.7 * image + 0.3 * overlay\<close>, of the untouched frame with that copy. In
  the editor, \<^verbatim>\<open>draw_frame_overlay\<close> draws the outline of its zone on the output
  buffer, the filled polygon on a fresh copy of that buffer, blends the copy into the
  buffer in place (\<open>image = 0.3 * overlay + 0.7 * image\<close>) and then draws the label on
  the buffer; \<^verbatim>\<open>update_frame_display\<close> calls it once per zone, which makes one
  blend per zone.
\<close>

theorem compositors_as_coded:
  "(draw_frame_overlays zs = Inr cs \<longrightarrow>
      map shape cs = (Copying, Overlay) # concat (replicate (length zs)
         [(Outline, Overlay), (Fill, Overlay), (Label, Overlay), (Label, Overlay)]) @ [(Blend, Result)] \<and>
      last cs = AddWeighted Image 0.7 Overlay 0.3 Result \<and>
      blend_calls cs = 1) \<and>
   (draw_frame_overlay z is_selected = Inr cs1 \<longrightarrow>
      map shape cs1 = [(Outline, Image), (Copying, Overlay), (Fill, Overlay), (Blend, Image),
                       (Label, Image), (Label, Image)] \<and>
      cs1 ! 3 = AddWeighted Overlay 0.3 Image 0.7 Image) \<and>
   (draw_all_frames 0 selected zs = Inr cs2 \<longrightarrow> blend_calls cs2 = length zs)"
proof (intro conjI impI)
  assume a: "draw_frame_overlays zs = Inr cs"
  then obtain ds where d: "overlay_zones 0 zs = Inr ds" and
    c: "cs = Copy Image Overlay # ds @ [AddWeighted Image 0.7 Overlay 0.3 Result]"
    by (auto simp: draw_frame_overlays_def split: sum.splits)
  show m: "map shape cs = (Copying, Overlay) # concat (replicate (length zs)
         [(Outline, Overlay), (Fill, Overlay), (Label, Overlay), (Label, Overlay)]) @ [(Blend, Result)]"
    using overlay_zones_shape [OF d] c by (simp add: shape_def)
  show "last cs = AddWeighted Image 0.7 Overlay 0.3 Result" using c by simp
  show "blend_calls cs = 1"
    unfolding blend_calls_shape m by (simp add: no_blend_in_zone_calls)
next
  assume "draw_frame_overlay z is_selected = Inr cs1"
  then show "map shape cs1 = [(Outline, Image), (Copying, Overlay), (Fill, Overlay), (Blend, Image),
                       (Label, Image), (Label, Image)]"
    and "cs1 ! 3 = AddWeighted Overlay 0.3 Image 0.7 Image"
    using draw_frame_overlay_shape by blast+
next
  assume "draw_all_frames 0 selected zs = Inr cs2"
  then show "blend_calls cs2 = length zs" by (rule draw_all_frames_blends)
qed

theorem compositors_as_coded_witness:
  "draw_frame_overlays [zone_b] = Inr (calls_of (draw_frame_overlays [zone_b])) \<and>
   blend_calls (calls_of (draw_frame_overlays [zone_b])) = 1 \<and>
   last (calls_of (draw_frame_overlays [zone_b])) = AddWeighted Image 0.7 Overlay 0.3 Result \<and>
   draw_frame_overlay zone_b True = Inr (calls_of (draw_frame_overlay zone_b True)) \<and>
   calls_of (draw_frame_overlay zone_b True) ! 3 = AddWeighted Overlay 0.3 Image 0.7 Image \<and>
   draw_all_frames 0 0 [zone_b, zone_d] = Inr (calls_of (draw_all_frames 0 0 [zone_b, zone_d])) \<and>
   blend_calls (calls_of (draw_all_frames 0 0 [zone_b, zone_d])) = 2"
proof -
  have a: "draw_frame_overlays [zone_b] = Inr (calls_of (draw_frame_overlays [zone_b]))"
    by (simp add: draw_frame_overlays_def overlay_zone_def zone_b_def py_get_default_def
        calls_of_def Let_def)
  have b: "draw_frame_overlay zone_b True = Inr (calls_of (draw_frame_overlay zone_b True))"
    by (simp add: draw_frame_overlay_def zone_b_def py_get_default_def calls_of_def Let_def)
  have c: "draw_all_frames 0 0 [zone_b, zone_d] =
           Inr (calls_of (draw_all_frames 0 0 [zone_b, zone_d]))"
    by (simp add: draw_frame_overlay_def zone_b_def zone_d_def py_get_default_def
        calls_of_def Let_def)
  show ?thesis
    using a b c
      compositors_as_coded [of "[zone_b]" "calls_of (draw_frame_overlays [zone_b])"
        zone_b True "calls_of (draw_frame_overlay zone_b True)" 0 "[]"]
      compositors_as_coded [of "[zone_b, zone_d]" "[]"
        zone_b True "calls_of (draw_frame_overlay zone_b True)" 0
        "calls_of (draw_all_frames 0 0 [zone_b, zone_d])"]
    by simp
qed

lemma playback_calls_example:
  "map shape (calls_of (draw_frame_overlays [zone_b])) =
     [(Copying, Overlay), (Outline, Overlay), (Fill, Overlay), (Label, Overlay),
      (Label, Overlay), (Blend, Result)]"
  by (simp add: draw_frame_overlays_def overlay_zone_def zone_b_def py_get_default_def
      calls_of_def shape_def Let_def)

lemma editor_calls_example:
  "map shape (calls_of (draw_all_frames 0 0 [zone_b, zone_d])) =
     [(Outline, Image), (Copying, Overlay), (Fill, Overlay), (Blend, Image),
      (Label, Image), (Label, Image),
      (Outline, Image), (Copying, Overlay), (Fill, Overlay), (Blend, Image),
      (Label, Image), (Label, Image)]"
  by (simp add: draw_frame_overlay_def zone_b_def zone_d_def py_get_default_def
      calls_of_def shape_def Let_def)

lemma labels_after_blend_shape:
  "labels_after_blend cs = (Label \<notin> set (map fst (takeWhile (\<lambda>s. fst s \<noteq> Blend) (map shape cs))))"
  by (simp add: labels_after_blend_def shape_def takeWhile_map comp_def)

text \<open>
  Claim C2, as it is stated, fails on both compositors. For one zone,
  \<^verbatim>\<open>draw_frame_overlays\<close> draws the labels before its blend (and the outline on the
  working copy); for two zones, the editor makes two blend calls.
\<close>

theorem composite_counterexample:
  "\<not> composited_as_specified (calls_of (draw_frame_overlays [zone_b])) \<and>
   \<not> composited_as_specified (calls_of (draw_all_frames 0 0 [zone_b, zone_d]))"
proof
  have "\<not> labels_after_blend (calls_of (draw_frame_overlays [zone_b]))"
    unfolding labels_after_blend_shape playback_calls_example by simp
  then show "\<not> composited_as_specified (calls_of (draw_frame_overlays [zone_b]))"
    by (simp add: composited_as_specified_def)
  have "blend_calls (calls_of (draw_all_frames 0 0 [zone_b, zone_d])) = 2"
    unfolding blend_calls_shape editor_calls_example by simp
  then show "\<not> composited_as_specified (calls_of (draw_all_frames 0 0 [zone_b, zone_d]))"
    by (simp add: composited_as_specified_def)
qed

section \<open>Properties of the editor\<close>

lemma zoom_step_bounds:
  assumes "0.2 \<le> zoom_factor st" and "zoom_factor st \<le> 5"
  shows "0.2 \<le> zoom_factor (viewport_step st a) \<and> zoom_factor (viewport_step st a) \<le> 5"
  using assms
  by (cases a)
    (auto simp: zoom_in_def zoom_out_def reset_zoom_def on_mouse_wheel_def on_mouse_press_def
      on_mouse_drag_def on_mouse_release_def min_def max_def)

lemma zoom_run_bounds:
  "0.2 \<le> zoom_factor st \<Longrightarrow> zoom_factor st \<le> 5 \<Longrightarrow>
   0.2 \<le> zoom_factor (foldl viewport_step st acts) \<and> zoom_factor (foldl viewport_step st acts) \<le> 5"
proof (induction acts arbitrary: st)
  case Nil
  then show ?case by simp
next
  case (Cons a acts)
  have "0.2 \<le> zoom_factor (viewport_step st a) \<and> zoom_factor (viewport_step st a) \<le> 5"
    using Cons.prems by (rule zoom_step_bounds)
  then show ?case using Cons.IH [of "viewport_step st a"] by simp
qed

text \<open>
  Claim C5. Starting from a zoom factor of 1.0, after any finite sequence of viewport
  actions (zoom in, zoom out, reset, mouse wheel, panning) the zoom factor lies in the
  closed interval from 0.2 to 5.0.
\<close>

theorem zoom_factor_clamped:
  "0.2 \<le> zoom_factor (foldl viewport_step (st\<lparr>zoom_factor := 1.0\<rparr>) acts) \<and>
   zoom_factor (foldl viewport_step (st\<lparr>zoom_factor := 1.0\<rparr>) acts) \<le> 5.0"
  using zoom_run_bounds [of "st\<lparr>zoom_factor := 1.0\<rparr>" acts] by simp

theorem zoom_factor_clamped_witness:
  "zoom_factor (foldl viewport_step (example_editor\<lparr>zoom_factor := 1.0\<rparr>)
      (replicate 12 ZoomIn)) \<le> 5.0 \<and>
   0.2 \<le> zoom_factor (foldl viewport_step (example_editor\<lparr>zoom_factor := 1.0\<rparr>)
      (replicate 12 ZoomOut))"
  using zoom_factor_clamped [of example_editor "replicate 12 ZoomIn"]
    zoom_factor_clamped [of example_editor "replicate 12 ZoomOut"]
  by simp

lemma py_index_valid:
  "0 \<le> i \<Longrightarrow> i < int (length xs) \<Longrightarrow> py_index xs i = Inr (nat i)"
  by (simp add: py_index_def Let_def)

lemma valid_select: "valid_selection st \<Longrightarrow> valid_selection (select_frame i st)"
  by (auto simp: valid_selection_def select_frame_def)

lemma valid_add: "valid_selection (add_new_frame video st)"
  by (auto simp: valid_selection_def add_new_frame_def Let_def split: option.splits prod.splits)

lemma valid_update:
  "valid_selection st \<Longrightarrow> update_frame_data v x st = Inr st' \<Longrightarrow> valid_selection st'"
  by (auto simp: valid_selection_def update_frame_data_def Let_def split: sum.splits)

lemma valid_slider:
  "valid_selection st \<Longrightarrow> on_slider_change v x st = Inr st' \<Longrightarrow> valid_selection st'"
  by (auto simp: on_slider_change_def split: if_splits dest: valid_update)

lemma valid_textbox:
  "valid_selection st \<Longrightarrow> on_textbox_change b v x st = Inr st' \<Longrightarrow> valid_selection st'"
  by (auto simp: on_textbox_change_def Let_def split: if_splits option.splits prod.splits
      dest: valid_update)

lemma valid_name:
  "valid_selection st \<Longrightarrow> on_name_change x st = Inr st' \<Longrightarrow> valid_selection st'"
  by (auto simp: valid_selection_def on_name_change_def split: if_splits sum.splits)

lemma delete_frame_valid:
  assumes "valid_selection st" and "frames_data st \<noteq> []"
  shows "delete_frame True st =
     Inr (st\<lparr>frames_data := take (nat (selected_frame_index st)) (frames_data st) @
                              drop (Suc (nat (selected_frame_index st))) (frames_data st),
             selected_frame_index :=
               (if selected_frame_index st < int (length (frames_data st)) - 1
                then selected_frame_index st
                else max 0 (int (length (frames_data st)) - 2))\<rparr>)"
proof -
  have i: "0 \<le> selected_frame_index st" "selected_frame_index st < int (length (frames_data st))"
    using assms by (auto simp: valid_selection_def max_def Suc_le_eq split: if_splits)
  have "py_del (frames_data st) (selected_frame_index st) =
        Inr (take (nat (selected_frame_index st)) (frames_data st) @
             drop (Suc (nat (selected_frame_index st))) (frames_data st))"
    using i by (simp add: py_del_def py_index_valid)
  then show ?thesis using assms(2) i by (auto simp: delete_frame_def)
qed

lemma valid_delete:
  "valid_selection st \<Longrightarrow> delete_frame c st = Inr st' \<Longrightarrow> valid_selection st'"
  by (cases "frames_data st = [] \<or> \<not> c")
     (auto simp: delete_frame_def valid_selection_def split: sum.splits if_splits)

lemma valid_reset:
  "valid_selection st \<Longrightarrow> reset_to_original l files c st = Inr st' \<Longrightarrow> valid_selection st'"
  by (auto simp: reset_to_original_def valid_selection_def split: if_splits option.splits)

lemma valid_save:
  "valid_selection st \<Longrightarrow> save_config d w files p st = (st', files', ok) \<Longrightarrow> valid_selection st'"
  by (auto simp: save_config_def valid_selection_def Let_def split: if_splits)

lemma valid_viewport: "valid_selection st \<Longrightarrow> valid_selection (viewport_step st a)"
  by (cases a)
    (auto simp: valid_selection_def zoom_in_def zoom_out_def reset_zoom_def on_mouse_wheel_def
      on_mouse_press_def on_mouse_drag_def on_mouse_release_def)

lemma map_sum_Inr: "map_sum id f r = Inr y \<longleftrightarrow> (\<exists>x. r = Inr x \<and> y = f x)"
  by (cases r) auto

lemma valid_step:
  "valid_selection st \<Longrightarrow> editor_step env (st, files) a = Inr (st', files') \<Longrightarrow> valid_selection st'"
  by (cases a)
    (auto simp: valid_select valid_add valid_viewport map_sum_Inr split: prod.splits
      dest: valid_delete valid_slider valid_textbox valid_name valid_reset valid_save)

lemma valid_run:
  "valid_selection st \<Longrightarrow> run_editor env (st, files) acts = Inr (st', files') \<Longrightarrow> valid_selection st'"
proof (induction acts arbitrary: st files)
  case Nil
  then show ?case by simp
next
  case (Cons a acts)
  from Cons.prems(2) obtain st1 files1 where
    s: "editor_step env (st, files) a = Inr (st1, files1)" and
    r: "run_editor env (st1, files1) acts = Inr (st', files')"
    by (auto split: sum.splits)
  show ?case using Cons.IH [OF valid_step [OF Cons.prems(1) s] r] .
qed

lemma valid_init: "init_editor cfg = Inr st \<Longrightarrow> valid_selection st"
  by (auto simp: init_editor_def valid_selection_def split: option.splits)

text \<open>
  Claim C7. In every state that the editor reaches from its start by a sequence of
  operations: on the empty store, selecting, the three field edits and deleting all
  leave the state as it is and raise nothing; on a store that is not empty, a confirmed
  delete removes the selected zone, keeps the selection at the same index when that is
  still an index of the store and otherwise moves it to the last index (0 for the empty
  store), so that the selection is valid again; and deleting the only zone leaves the
  store empty.
\<close>

theorem zone_store_delete_and_empty:
  assumes "init_editor cfg = Inr st0"
    and "run_editor env (st0, files0) acts = Inr (st, files)"
  shows "(frames_data st = [] \<longrightarrow>
            select_frame i st = st \<and> on_slider_change v x st = Inr st \<and>
            on_textbox_change b v entry st = Inr st \<and> on_name_change s st = Inr st \<and>
            delete_frame c st = Inr st) \<and>
         (frames_data st \<noteq> [] \<longrightarrow>
            (\<exists>st'. delete_frame True st = Inr st' \<and>
               frames_data st' = take (nat (selected_frame_index st)) (frames_data st) @
                                 drop (Suc (nat (selected_frame_index st))) (frames_data st) \<and>
               selected_frame_index st' =
                 (if selected_frame_index st < int (length (frames_data st'))
                  then selected_frame_index st
                  else max 0 (int (length (frames_data st')) - 1)) \<and>
               (frames_data st' \<noteq> [] \<longrightarrow>
                  0 \<le> selected_frame_index st' \<and>
                  selected_frame_index st' < int (length (frames_data st'))) \<and>
               (length (frames_data st) = 1 \<longrightarrow>
                  frames_data st' = [] \<and> selected_frame_index st' = 0)))"
proof (intro conjI impI)
  assume e: "frames_data st = []"
  show "select_frame i st = st" using e by (simp add: select_frame_def)
  show "on_slider_change v x st = Inr st" using e by (simp add: on_slider_change_def)
  show "on_textbox_change b v entry st = Inr st" using e by (simp add: on_textbox_change_def)
  show "on_name_change s st = Inr st" using e by (simp add: on_name_change_def)
  show "delete_frame c st = Inr st" using e by (simp add: delete_frame_def)
next
  assume ne: "frames_data st \<noteq> []"
  have v: "valid_selection st"
    using valid_run [OF valid_init [OF assms(1)] assms(2)] .
  let ?i = "selected_frame_index st"
  let ?fs = "take (nat ?i) (frames_data st) @ drop (Suc (nat ?i)) (frames_data st)"
  let ?st' = "st\<lparr>frames_data := ?fs,
                 selected_frame_index :=
                   (if ?i < int (length (frames_data st)) - 1 then ?i
                    else max 0 (int (length (frames_data st)) - 2))\<rparr>"
  have i: "0 \<le> ?i" "?i < int (length (frames_data st))"
    using v ne by (auto simp: valid_selection_def max_def Suc_le_eq split: if_splits)
  have l: "int (length ?fs) = int (length (frames_data st)) - 1"
    using i by auto
  have d: "delete_frame True st = Inr ?st'"
    using delete_frame_valid [OF v ne] .
  have "frames_data ?st' = ?fs" by simp
  moreover have "selected_frame_index ?st' =
      (if ?i < int (length (frames_data ?st')) then ?i
       else max 0 (int (length (frames_data ?st')) - 1))"
    using i l by (auto simp: max_def)
  moreover have "frames_data ?st' \<noteq> [] \<longrightarrow>
      0 \<le> selected_frame_index ?st' \<and> selected_frame_index ?st' < int (length (frames_data ?st'))"
    using i l by (auto simp: max_def)
  moreover have "length (frames_data st) = 1 \<longrightarrow>
      frames_data ?st' = [] \<and> selected_frame_index ?st' = 0"
    using i l by auto
  ultimately show "\<exists>st'. delete_frame True st = Inr st' \<and>
               frames_data st' = ?fs \<and>
               selected_frame_index st' =
                 (if ?i < int (length (frames_data st')) then ?i
                  else max 0 (int (length (frames_data st')) - 1)) \<and>
               (frames_data st' \<noteq> [] \<longrightarrow>
                  0 \<le> selected_frame_index st' \<and>
                  selected_frame_index st' < int (length (frames_data st'))) \<and>
               (length (frames_data st) = 1 \<longrightarrow>
                  frames_data st' = [] \<and> selected_frame_index st' = 0)"
    using d by blast
qed

lemma init_example: "init_editor example_config = Inr example_editor"
  by (simp add: init_editor_def example_config_def example_editor_def py_get_default_def)

lemma run_example_1:
  "run_editor example_environment (example_editor, Map.empty) [Select_frame 2, Delete_frame True] =
     Inr (example_editor\<lparr>frames_data := [zone_a, zone_b], selected_frame_index := 1\<rparr>, Map.empty)"
  by (simp add: example_editor_def select_frame_def delete_frame_def py_del_def py_index_def)

lemma run_example_2:
  "run_editor example_environment (example_editor, Map.empty)
     [Delete_frame True, Delete_frame True, Delete_frame True] =
     Inr (example_editor\<lparr>frames_data := [], selected_frame_index := 0\<rparr>, Map.empty)"
  by (simp add: example_editor_def select_frame_def delete_frame_def py_del_def py_index_def)

theorem zone_store_delete_and_empty_witness:
  "init_editor example_config = Inr example_editor \<and>
   run_editor example_environment (example_editor, Map.empty) [Select_frame 2, Delete_frame True] =
     Inr (example_editor\<lparr>frames_data := [zone_a, zone_b], selected_frame_index := 1\<rparr>, Map.empty) \<and>
   delete_frame True (example_editor\<lparr>frames_data := [zone_a, zone_b], selected_frame_index := 1\<rparr>) =
     Inr (example_editor\<lparr>frames_data := [zone_a], selected_frame_index := 0\<rparr>) \<and>
   run_editor example_environment (example_editor, Map.empty)
     [Delete_frame True, Delete_frame True, Delete_frame True] =
     Inr (example_editor\<lparr>frames_data := [], selected_frame_index := 0\<rparr>, Map.empty) \<and>
   select_frame 0 (example_editor\<lparr>frames_data := [], selected_frame_index := 0\<rparr>) =
     example_editor\<lparr>frames_data := [], selected_frame_index := 0\<rparr> \<and>
   on_slider_change Top_left_x 10 (example_editor\<lparr>frames_data := [], selected_frame_index := 0\<rparr>) =
     Inr (example_editor\<lparr>frames_data := [], selected_frame_index := 0\<rparr>)"
proof -
  let ?two = "example_editor\<lparr>frames_data := [zone_a, zone_b], selected_frame_index := 1\<rparr>"
  let ?none = "example_editor\<lparr>frames_data := [], selected_frame_index := 0\<rparr>"
  from zone_store_delete_and_empty [OF init_example run_example_1]
  obtain st' where "delete_frame True ?two = Inr st'"
    and "frames_data st' = [zone_a]" and "selected_frame_index st' = 0"
    by (auto simp: example_editor_def)
  moreover have "delete_frame True ?two = Inr (example_editor\<lparr>frames_data := [zone_a], selected_frame_index := 0\<rparr>)"
    by (simp add: delete_frame_def py_del_def py_index_def example_editor_def)
  moreover from zone_store_delete_and_empty [OF init_example run_example_2, of 0 Top_left_x 10]
  have "select_frame 0 ?none = ?none \<and> on_slider_change Top_left_x 10 ?none = Inr ?none"
    by (simp add: example_editor_def)
  ultimately show ?thesis using init_example run_example_1 run_example_2 by simp
qed



section \<open>Properties of the playback loop\<close>

text \<open>
  The step key does nothing while playing. While paused, with a frame left, it reads
  that one frame, advances the position and the frame counter by one and stays paused.
  While paused at the end of the video, it leaves \<^verbatim>\<open>frame\<close> at \<^verbatim>\<open>None\<close>, and
  the next iteration raises whatever key follows.
\<close>

lemma step_while_playing:
  "\<not> paused st \<Longrightarrow> handle_key n Key_s st = Running st"
  by (simp add: handle_key_def)

lemma step_while_paused:
  "paused st \<Longrightarrow> position st < n \<Longrightarrow>
   handle_key n Key_s st =
     Running (st\<lparr>frame := Some (position st), position := position st + 1,
                 frame_count := frame_count st + 1\<rparr>)"
  by (simp add: handle_key_def cap_read_def)

lemma step_at_end:
  "paused st \<Longrightarrow> n \<le> position st \<Longrightarrow>
   handle_key n Key_s st = Running (st\<lparr>frame := None\<rparr>) \<and>
   loop_body n k (st\<lparr>frame := None\<rparr>) = Raised AttributeError"
  by (simp add: handle_key_def cap_read_def loop_body_def)

text \<open>
  Claim C6, at the end of a video of one frame. After pause and step the read has failed
  and \<^verbatim>\<open>frame\<close> is \<^verbatim>\<open>None\<close>, the player still paused; the next iteration raises
  \<^verbatim>\<open>AttributeError\<close> at \<^verbatim>\<open>frame.copy()\<close>. When the same video runs out
  while playing, the loop ends and \<^verbatim>\<open>play_video\<close> returns \<^verbatim>\<open>True\<close>.
\<close>

theorem step_at_end_of_video_raises:
  "play_video 1 (initial_player False) [Key_p, Key_s] =
     Running \<lparr>paused = True, frame_count = 1, show_overlays = False, frame = None, position = 1\<rparr> \<and>
   play_video 1 (initial_player False) [Key_p, Key_s, Other_key] = Raised AttributeError \<and>
   play_video 1 (initial_player False) [Other_key, Other_key] = Returned_True"
  by (simp add: loop_body_def handle_key_def cap_read_def initial_player_def)

section \<open>Properties of the display copies\<close>

lemma nth_prefix:
  "take (length h) h' = h \<Longrightarrow> i < length h \<Longrightarrow> h' ! i = h ! i"
  by (metis nth_take)

lemma prefix_trans:
  assumes "length h \<le> length h'" and "take (length h) h' = h"
    and "length h' \<le> length h''" and "take (length h') h'' = h'"
  shows "length h \<le> length h'' \<and> take (length h) h'' = h"
proof
  show "length h \<le> length h''" using assms(1,3) by simp
  have "take (length h) h'' = take (length h) (take (length h') h'')"
    using assms(1) by (simp add: min_def)
  then show "take (length h) h'' = h" using assms(2,4) by simp
qed

lemma length_dict_set: "length (dict_set h a k v) = length h"
  by (simp add: dict_set_def split: pyobj.splits)

lemma take_dict_set: "n \<le> a \<Longrightarrow> take n (dict_set h a k v) = take n h"
  by (simp add: dict_set_def split: pyobj.splits)

lemma scale_config_prefix:
  "length h \<le> length (fst (scale_config h sx sy a)) \<and>
   take (length h) (fst (scale_config h sx sy a)) = h"
  by (simp add: scale_config_def alloc_def Let_def length_dict_set take_dict_set
      split: sum.splits prod.splits pyobj.splits)

lemma scale_configs_prefix:
  "length h \<le> length (fst (scale_configs h sx sy as)) \<and>
   take (length h) (fst (scale_configs h sx sy as)) = h"
proof (induction as arbitrary: h)
  case Nil
  then show ?case by simp
next
  case (Cons a as)
  obtain h1 r1 where s1: "scale_config h sx sy a = (h1, r1)" by (cases "scale_config h sx sy a")
  have p1: "length h \<le> length h1 \<and> take (length h) h1 = h"
    using scale_config_prefix [of h sx sy a] s1 by simp
  show ?case
  proof (cases r1)
    case (Inl e)
    then show ?thesis using s1 p1 by simp
  next
    case (Inr c)
    obtain h2 r2 where s2: "scale_configs h1 sx sy as = (h2, r2)"
      by (cases "scale_configs h1 sx sy as")
    have p2: "length h1 \<le> length h2 \<and> take (length h1) h2 = h1"
      using Cons.IH [of h1] s2 by simp
    have "fst (scale_configs h sx sy (a # as)) = h2"
      using s1 s2 Inr by (cases r2) simp_all
    then show ?thesis using prefix_trans [of h h1 h2] p1 p2 by simp
  qed
qed

lemma scale_configs_prefixD:
  "scale_configs h sx sy as = (h', r) \<Longrightarrow> length h \<le> length h' \<and> take (length h) h' = h"
  using scale_configs_prefix [of h sx sy as] by simp

lemma display_prefix:
  "length h \<le> length (fst (display h fc ww wh width height ov)) \<and>
   take (length h) (fst (display h fc ww wh width height ov)) = h"
  by (auto simp: display_def unscaled_display_def Let_def
      split: option.splits prod.splits sum.splits dest: scale_configs_prefixD)

lemma display_frames_prefix:
  "length h \<le> length (display_frames h fc ww wh width height flags) \<and>
   take (length h) (display_frames h fc ww wh width height flags) = h"
proof (induction flags arbitrary: h)
  case Nil
  then show ?case by simp
next
  case (Cons ov flags)
  obtain h1 r1 where d: "display h fc ww wh width height ov = (h1, r1)"
    by (cases "display h fc ww wh width height ov")
  have p1: "length h \<le> length h1 \<and> take (length h) h1 = h"
    using display_prefix [of h fc ww wh width height ov] d by simp
  show ?case
  proof (cases r1)
    case (Inl e)
    then show ?thesis using d p1 by simp
  next
    case (Inr calls)
    have "display_frames h fc ww wh width height (ov # flags) =
          display_frames h1 fc ww wh width height flags"
      using d Inr by simp
    then show ?thesis using prefix_trans [of h h1] p1 Cons.IH [of h1] by simp
  qed
qed

lemma subscript_mono:
  assumes "take (length h) h' = h" and "length h \<le> length h'" and "subscript h a k = Inr v"
  shows "subscript h' a k = Inr v"
proof -
  from assms(3) have a: "a < length h" by (auto simp: subscript_def split: if_splits)
  have "h' ! a = h ! a" using assms(1) a by (rule nth_prefix)
  then show ?thesis using assms(2,3) a by (simp add: subscript_def)
qed

lemma get_key_mono:
  assumes "take (length h) h' = h" and "length h \<le> length h'" and "get_key h a k = Inr v"
  shows "get_key h' a k = Inr v"
proof -
  from assms(3) have a: "a < length h" by (auto simp: get_key_def split: if_splits)
  have "h' ! a = h ! a" using assms(1) a by (rule nth_prefix)
  then show ?thesis using assms(2,3) a by (simp add: get_key_def)
qed

lemma coordinate_mono:
  assumes "take (length h) h' = h" and "length h \<le> length h'" and "coordinate h a k = Inr p"
  shows "coordinate h' a k = Inr p"
proof -
  from assms(3) obtain l where s: "subscript h a k = Inr (PRef l)" and ll: "l < length h"
    by (auto simp: coordinate_def split: sum.splits pyval.splits if_splits)
  have "h' ! l = h ! l" using assms(1) ll by (rule nth_prefix)
  then show ?thesis
    using assms(2,3) subscript_mono [OF assms(1,2) s] s ll by (simp add: coordinate_def)
qed

lemma color_field_mono:
  assumes "take (length h) h' = h" and "length h \<le> length h'" and "color_field h v = Inr c"
  shows "color_field h' v = Inr c"
proof (cases v)
  case None
  then show ?thesis using assms(3) by (simp add: color_field_def)
next
  case (Some w)
  show ?thesis
  proof (cases w)
    case (PRef l)
    with Some assms(3) have ll: "l < length h"
      by (auto simp: color_field_def split: if_splits)
    have "h' ! l = h ! l" using assms(1) ll by (rule nth_prefix)
    then show ?thesis using assms(2,3) Some PRef ll by (simp add: color_field_def)
  qed (use Some assms(3) in \<open>simp_all add: color_field_def\<close>)
qed

lemma zone_at_mono:
  assumes "take (length h) h' = h" and "length h \<le> length h'" and "zone_at h a = Inr z"
  shows "zone_at h' a = Inr z"
proof -
  from assms(3) obtain tl br r rot c col n nm where
    t: "coordinate h a ''top_left'' = Inr tl" and
    b: "coordinate h a ''bottom_right'' = Inr br" and
    r: "get_key h a ''rotation'' = Inr r" "rotation_field r = Inr rot" and
    c: "get_key h a ''color'' = Inr c" "color_field h c = Inr col" and
    n: "get_key h a ''name'' = Inr n" "name_field n = Inr nm" and
    z: "z = \<lparr>name = nm, top_left = tl, bottom_right = br, rotation = rot, color = col\<rparr>"
    by (auto simp: zone_at_def split: sum.splits)
  show ?thesis
    using coordinate_mono [OF assms(1,2) t] coordinate_mono [OF assms(1,2) b]
      get_key_mono [OF assms(1,2) r(1)] get_key_mono [OF assms(1,2) c(1)]
      get_key_mono [OF assms(1,2) n(1)] color_field_mono [OF assms(1,2) c(2)] r(2) n(2) z
    by (simp add: zone_at_def)
qed

text \<open>
  Claim C9. After any number of displayed frames, with the overlays on or off at each
  of them, every object that was in the store before is still there unchanged: the
  scaling writes only to the copies it allocates. In particular a stored zone
  dictionary reads as the same zone record (name, top_left, bottom_right, rotation and
  color) as before.
\<close>

theorem scaling_never_writes_back:
  "take (length h) (display_frames h frames_config win_width win_height width height shown) = h \<and>
   (zone_at h a = Inr z \<longrightarrow>
      zone_at (display_frames h frames_config win_width win_height width height shown) a = Inr z)"
  using display_frames_prefix [of h frames_config win_width win_height width height shown]
    zone_at_mono [of h _ a z]
  by blast

lemma example_zone_at:
  "zone_at example_heap 3 =
     Inr \<lparr>name = Value ''A'', top_left = (50, 50), bottom_right = (150, 150),
          rotation = Value 0, color = Value [0, 0, 255]\<rparr>"
  by (simp add: zone_at_def coordinate_def subscript_def get_key_def rotation_field_def
      color_field_def name_field_def example_heap_def)

theorem scaling_never_writes_back_witness:
  "zone_at example_heap 3 =
     Inr \<lparr>name = Value ''A'', top_left = (50, 50), bottom_right = (150, 150),
          rotation = Value 0, color = Value [0, 0, 255]\<rparr> \<and>
   take (length example_heap)
     (display_frames example_heap [3] (Some 800) (Some 600) 400 300 [True, False, True]) =
     example_heap \<and>
   zone_at (display_frames example_heap [3] (Some 800) (Some 600) 400 300 [True, False, True]) 3 =
     Inr \<lparr>name = Value ''A'', top_left = (50, 50), bottom_right = (150, 150),
          rotation = Value 0, color = Value [0, 0, 255]\<rparr>"
  using scaling_never_writes_back [of example_heap "[3]" "Some 800" "Some 600" 400 300
      "[True, False, True]" 3
      "\<lparr>name = Value ''A'', top_left = (50, 50), bottom_right = (150, 150),
        rotation = Value 0, color = Value [0, 0, 255]\<rparr>"]
    example_zone_at
  by simp

text \<open>
  The copy is what gets scaled: with factors 2 and 0.5 the dictionary allocated for the
  stored zone at address 3 reads as the zone with scaled corners, and shares the name
  and the colour list.
\<close>

lemma example_scaled_copy:
  "snd (scale_config example_heap 2 0.5 3) = Inr 4 \<and>
   zone_at (fst (scale_config example_heap 2 0.5 3)) 4 =
     Inr \<lparr>name = Value ''A'', top_left = (100, 25), bottom_right = (300, 75),
          rotation = Value 0, color = Value [0, 0, 255]\<rparr>"
  by (simp add: scale_config_def scaled_pair_def item_def scaled_def alloc_def dict_set_def
      py_index_def py_int_def zone_at_def coordinate_def subscript_def get_key_def
      rotation_field_def color_field_def name_field_def example_heap_def Let_def
      AList.update.simps nth_append)

end
